theory Spec2Isabelle
  imports Complex_Main "HOL-Library.Sublist"
begin

section \<open>Strings and numbers as the two runtimes print them\<close>

text \<open>
  Go and JavaScript strings are modelled as \<^typ>\<open>string\<close>. A finite \<open>float64\<close> (Go) or
  \<open>number\<close> (JavaScript) is modelled by its exact value, a rational; NaN and the
  infinities are outside the model. Go's \<open>int\<close> is modelled as \<^typ>\<open>int\<close>.
  An error value is the text of its message.
\<close>

type_synonym float64 = rat
type_synonym err = string

text \<open>\<open>strings.Join(elems, sep)\<close> of Go, and \<open>Array.prototype.join\<close> on an array of strings.\<close>

fun Join :: "string list \<Rightarrow> string \<Rightarrow> string" where
  "Join [] sep = []"
| "Join [x] sep = x"
| "Join (x # y # ys) sep = x @ sep @ Join (y # ys) sep"

definition digit_char :: "nat \<Rightarrow> char" where
  "digit_char d = ''0123456789'' ! d"

text \<open>The decimal digits of a natural number, without leading zeros (\<open>0\<close> is \<open>''0''\<close>).\<close>

fun show_nat :: "nat \<Rightarrow> string" where
  "show_nat n = (if n < 10 then [digit_char n] else show_nat (n div 10) @ [digit_char (n mod 10)])"

declare show_nat.simps [simp del]

text \<open>The verb \<open>%d\<close> of \<open>fmt.Sprintf\<close> on an \<open>int\<close>.\<close>

definition show_int :: "int \<Rightarrow> string" where
  "show_int i = (if i < 0 then ''-'' @ show_nat (nat (- i)) else show_nat (nat i))"

definition pad_zeros :: "nat \<Rightarrow> string \<Rightarrow> string" where
  "pad_zeros w s = replicate (w - length s) (CHR ''0'') @ s"

text \<open>Rounding a non-negative rational to the nearest integer, ties to the even neighbour.\<close>

definition round_half_even :: "rat \<Rightarrow> nat" where
  "round_half_even r =
     (let f = \<lfloor>r\<rfloor>; d = r - of_int f
      in nat (if d < 1 / 2 then f else if 1 / 2 < d then f + 1 else if even f then f else f + 1))"

text \<open>
  The verb \<open>%.pf\<close> of \<open>fmt.Sprintf\<close> on a finite \<open>float64\<close>: the sign, the integer
  part, and (for \<open>p > 0\<close>) a point followed by exactly \<open>p\<close> digits; the value is rounded
  to \<open>p\<close> decimals, ties to even.
\<close>

definition fmt_f :: "nat \<Rightarrow> float64 \<Rightarrow> string" where
  "fmt_f p x =
     (let n = round_half_even (\<bar>x\<bar> * 10 ^ p)
      in (if x < 0 then ''-'' else '''') @ show_nat (n div 10 ^ p) @
         (if p = 0 then '''' else ''.'' @ pad_zeros p (show_nat (n mod 10 ^ p))))"

text \<open>
  \<open>Number.prototype.toFixed(f)\<close> of JavaScript on a finite number. At \<open>10^21\<close> and above
  the result is the ordinary number-to-string conversion, which is a parameter here
  (\<open>numToString\<close>), as it is wherever a number is interpolated into a template literal.
  Below, \<open>n\<close> is the integer nearest to \<open>x * 10^f\<close>, the larger one on a tie.
\<close>

definition toFixed :: "(float64 \<Rightarrow> string) \<Rightarrow> nat \<Rightarrow> float64 \<Rightarrow> string" where
  "toFixed numToString f x =
     (let s = (if x < 0 then ''-'' else ''''); a = \<bar>x\<bar>
      in if 10 ^ 21 \<le> a then s @ numToString a
         else
           (let n = nat \<lfloor>a * 10 ^ f + 1 / 2\<rfloor>;
                m = (if n = 0 then ''0'' else show_nat n);
                m' = (if f \<noteq> 0
                      then (let z = (if length m \<le> f then replicate (f + 1 - length m) (CHR ''0'') @ m else m);
                                k = length z
                            in take (k - f) z @ ''.'' @ drop (k - f) z)
                      else m)
            in s @ m'))"

text \<open>
  A number printed with exactly six decimals: an optional minus sign, one or more digits,
  a point, six digits.
\<close>

definition is_digit :: "char \<Rightarrow> bool" where
  "is_digit c = (c \<in> set ''0123456789'')"

definition six_decimals :: "string \<Rightarrow> bool" where
  "six_decimals s =
     (let t = (if take 1 s = ''-'' then drop 1 s else s);
          whole = takeWhile is_digit t;
          rest = dropWhile is_digit t
      in whole \<noteq> [] \<and> take 1 rest = ''.'' \<and> length rest = 7 \<and> list_all is_digit (drop 1 rest))"

section \<open>Tool arguments (Go: internal/agents/tools.go)\<close>

text \<open>
  What \<open>json.Unmarshal\<close> stores in an \<open>any\<close>: \<open>nil\<close>, \<open>bool\<close>, \<open>float64\<close>, \<open>string\<close>,
  \<open>[]any\<close> or \<open>map[string]any\<close>. The same shape serves for the JavaScript values of the
  TypeScript sample. A Go \<open>map[string]any\<close> is a partial function; a missing key reads as
  the \<open>nil\<close> interface, on which every type assertion fails.
\<close>

datatype json =
    JNull
  | JBool bool
  | JNumber float64
  | JString string
  | JArray "json list"
  | JObject "(string \<times> json) list"

text \<open>
  The conversion \<open>int(nn)\<close> of a \<open>float64\<close>: the fraction is discarded (truncation towards
  zero). Outside the range of \<open>int\<close> Go leaves the result to the implementation; the
  model returns the least \<open>int64\<close> there, as amd64 does.
\<close>

definition int_of_float64 :: "float64 \<Rightarrow> int" where
  "int_of_float64 x =
     (let t = (if x < 0 then - \<lfloor>- x\<rfloor> else \<lfloor>x\<rfloor>)
      in if - (2 ^ 63) \<le> t \<and> t < 2 ^ 63 then t else - (2 ^ 63))"

record toolArguments =
  Query :: string
  NearestNeighbors :: int

definition parseToolArgumentsFromMap :: "(string \<rightharpoonup> json) \<Rightarrow> err + toolArguments" where
  "parseToolArgumentsFromMap argsMap =
     (case argsMap ''query'' of
        Some (JString query) \<Rightarrow>
          Inr \<lparr>Query = query,
               NearestNeighbors =
                 (case argsMap ''nearestNeighbors'' of
                    Some (JNumber nn) \<Rightarrow> int_of_float64 nn
                  | _ \<Rightarrow> 0)\<rparr>
      | _ \<Rightarrow> Inl ''query argument missing or invalid'')"

section \<open>Hotel records and their text form (Go: internal/models, internal/vectorstore)\<close>

record Address =
  StreetAddress :: string
  City :: string
  StateProvince :: string
  PostalCode :: string
  Country :: string

text \<open>
  \<open>LastRenovationDate\<close> is a \<open>time.Time\<close>; its type is left open (\<open>'t\<close>) and the layout
  function \<open>Format("2006-01-02")\<close> of package \<open>time\<close> is a parameter (\<open>fmtDate\<close>).
\<close>

record 't HotelForVectorStore =
  HotelID :: string
  HotelName :: string
  Description :: string
  Category :: string
  Tags :: "string list"
  ParkingIncluded :: bool
  IsDeleted :: bool
  LastRenovationDate :: 't
  Rating :: float64
  Address :: Address
  DescriptionVector :: "float64 list"

record 't HotelSearchResult =
  Hotel :: "'t HotelForVectorStore"
  Score :: float64

text \<open>The verb \<open>%t\<close> of \<open>fmt.Sprintf\<close>.\<close>

definition fmt_t :: "bool \<Rightarrow> string" where
  "fmt_t b = (if b then ''true'' else ''false'')"

definition FormatHotelForSynthesizer :: "('t \<Rightarrow> string) \<Rightarrow> 't HotelSearchResult \<Rightarrow> string" where
  "FormatHotelForSynthesizer fmtDate result =
     (let hotel = Hotel result;
          tags = Join (Tags hotel) '', '';
          fields =
            [''--- HOTEL START ---'',
             ''HotelId: '' @ HotelID hotel,
             ''HotelName: '' @ HotelName hotel,
             ''Description: '' @ Description hotel,
             ''Category: '' @ Category hotel,
             ''Tags: '' @ tags,
             ''ParkingIncluded: '' @ fmt_t (ParkingIncluded hotel),
             ''IsDeleted: '' @ fmt_t (IsDeleted hotel),
             ''LastRenovationDate: '' @ fmtDate (LastRenovationDate hotel),
             ''Rating: '' @ fmt_f 1 (Rating hotel),
             ''Address.StreetAddress: '' @ StreetAddress (Address hotel),
             ''Address.City: '' @ City (Address hotel),
             ''Address.StateProvince: '' @ StateProvince (Address hotel),
             ''Address.PostalCode: '' @ PostalCode (Address hotel),
             ''Address.Country: '' @ Country (Address hotel),
             ''Score: '' @ fmt_f 6 (Score result),
             ''--- HOTEL END ---'']
      in Join fields [CHR 0x0A])"

section \<open>Vector search (Go: VectorStore.VectorSearch)\<close>

text \<open>
  The aggregation pipeline that \<open>VectorSearch\<close> sends has two stages: \<open>$search\<close> with
  \<open>cosmosSearch {vector, path, k}\<close>, and a fixed \<open>$project\<close> of the search score and the
  document. Only the three values that vary are kept.
\<close>

record pipeline =
  p_vector :: "float64 list"
  p_path :: string
  p_k :: int

text \<open>
  What the collection answers is a cursor: the documents it yields, each of which either
  decodes into a score and a hotel or makes \<open>cursor.Decode\<close> fail, and the error that
  \<open>cursor.Err()\<close> reports after the last one, if any. An error during iteration ends it:
  \<open>cursor.Next\<close> returns false and the documents after it are never seen.
\<close>

datatype 't cursor_doc = Decodes float64 "'t HotelForVectorStore" | DecodeFails err

record 't cursor =
  docs :: "'t cursor_doc list"
  cursor_Err :: "err option"

text \<open>The loop \<open>for cursor.Next(ctx) { ... results = append(results, ...) }\<close>.\<close>

fun decode_loop :: "'t cursor_doc list \<Rightarrow> 't HotelSearchResult list \<Rightarrow> err + 't HotelSearchResult list" where
  "decode_loop [] results = Inr results"
| "decode_loop (DecodeFails e # rest) results = Inl (''failed to decode result: '' @ e)"
| "decode_loop (Decodes score document # rest) results =
     decode_loop rest (results @ [\<lparr>Hotel = document, Score = score\<rparr>])"

text \<open>
  \<open>Aggregate\<close> is the call \<open>vs.collection.Aggregate(ctx, pipeline)\<close> to the database, and
  \<open>EmbeddedField\<close> is \<open>vs.config.EmbeddedField\<close>. The vector is copied element by element
  into a \<open>[]any\<close>, which leaves its values as they are.
\<close>

definition VectorSearch ::
  "(pipeline \<Rightarrow> err + 't cursor) \<Rightarrow> string \<Rightarrow> float64 list \<Rightarrow> int \<Rightarrow> err + 't HotelSearchResult list" where
  "VectorSearch Aggregate EmbeddedField queryVector k =
     (let vectorInterface = map (\<lambda>v. v) queryVector
      in case Aggregate \<lparr>p_vector = vectorInterface, p_path = EmbeddedField, p_k = k\<rparr> of
           Inl e \<Rightarrow> Inl (''vector search failed: '' @ e)
         | Inr cur \<Rightarrow>
             (case decode_loop (docs cur) [] of
                Inl e \<Rightarrow> Inl e
              | Inr results \<Rightarrow>
                  (case cursor_Err cur of
                     Some e \<Rightarrow> Inl (''cursor error: '' @ e)
                   | None \<Rightarrow> Inr results)))"

section \<open>The OpenAI client (Go: internal/clients/openai.go)\<close>

text \<open>
  The part of \<open>openai.ChatCompletion\<close> that the code reads: the choices, and of each
  choice its finish reason, the text content of its message and the tool calls of its
  message (type, function name, raw JSON arguments).
\<close>

record tool_call =
  tc_Type :: string
  tc_Name :: string
  tc_Arguments :: string

record chat_message =
  Content :: string
  ToolCalls :: "tool_call list"

record choice =
  FinishReason :: string
  Message :: chat_message

record ChatCompletion =
  Choices :: "choice list"

record chat_request =
  rq_system :: string
  rq_user :: string
  rq_tools :: "string list"

text \<open>
  Everything outside the repository that the Go agent calls, and the configuration it
  reads: the two OpenAI endpoints, the conversion to \<open>float32\<close>, \<open>json.Unmarshal\<close> into a
  \<open>map[string]any\<close>, the collection's \<open>Aggregate\<close>, the date layout of package \<open>time\<close>,
  the configured vector field, and the planner's system prompt (a long literal of package
  \<open>prompts\<close>, handed to the model as it is). A chat completion is a pointer and may be
  \<open>nil\<close> (\<open>None\<close>). Console output of the agent is not modelled.
\<close>

record 't go_env =
  Chat_Completions_New :: "chat_request \<Rightarrow> err + ChatCompletion option"
  Embeddings_New :: "string \<Rightarrow> err + float64 list list"
  to_float32 :: "float64 \<Rightarrow> float64"
  json_Unmarshal :: "string \<Rightarrow> err + (string \<rightharpoonup> json)"
  Aggregate :: "pipeline \<Rightarrow> err + 't cursor"
  time_Format :: "'t \<Rightarrow> string"
  EmbeddedField :: string
  PlannerSystemPrompt :: string

definition ToolName :: string where
  "ToolName = ''search_hotels_collection''"

definition GenerateEmbedding :: "'t go_env \<Rightarrow> string \<Rightarrow> err + float64 list" where
  "GenerateEmbedding env text =
     (case Embeddings_New env text of
        Inl e \<Rightarrow> Inl (''failed to generate embedding: '' @ e)
      | Inr Data \<Rightarrow>
          (case Data of
             [] \<Rightarrow> Inl ''no embeddings returned''
           | float64Embedding # _ \<Rightarrow> Inr (map (to_float32 env) float64Embedding)))"

definition ChatCompletionWithTools ::
  "'t go_env \<Rightarrow> string \<Rightarrow> string \<Rightarrow> string list \<Rightarrow> err + ChatCompletion option" where
  "ChatCompletionWithTools env systemPrompt userMessage tools =
     (if length tools = 0 then Inl ''no tools provided to ChatCompletionWithTools''
      else
        (case Chat_Completions_New env
                \<lparr>rq_system = systemPrompt, rq_user = userMessage, rq_tools = tools\<rparr> of
           Inl e \<Rightarrow> Inl (''planner chat completion failed: '' @ e)
         | Inr None \<Rightarrow> Inl ''planner returned nil response''
         | Inr (Some resp) \<Rightarrow> Inr (Some resp)))"

definition quote :: string where
  "quote = [CHR 0x27]"

definition extractToolCallRaw :: "ChatCompletion option \<Rightarrow> err + (string \<times> string)" where
  "extractToolCallRaw resp =
     (case resp of
        None \<Rightarrow> Inl ''response is nil''
      | Some r \<Rightarrow>
          (case Choices r of
             [] \<Rightarrow> Inl ''no choices in response''
           | choice # _ \<Rightarrow>
               if FinishReason choice = ''length''
               then Inl ''response was cut off (length limit exceeded)''
               else if FinishReason choice \<noteq> ''tool_calls'' \<and> FinishReason choice \<noteq> ''stop''
               then Inl (''unexpected finish reason: '' @ FinishReason choice @
                         '' (expected '' @ quote @ ''tool_calls'' @ quote @ '' or '' @
                         quote @ ''stop'' @ quote @ '')'')
               else
                 (case ToolCalls (Message choice) of
                    [] \<Rightarrow>
                      (let content = Content (Message choice)
                       in if content \<noteq> []
                          then Inl (''no tool calls in response - model returned: '' @ content)
                          else Inl (''no tool calls in response and no text content - finish_reason: '' @
                                    FinishReason choice))
                  | toolCall # _ \<Rightarrow>
                      if tc_Type toolCall \<noteq> ''function''
                      then Inl (''unexpected tool call type: '' @ tc_Type toolCall @
                                '' (expected '' @ quote @ ''function'' @ quote @ '')'')
                      else Inr (tc_Name toolCall, tc_Arguments toolCall))))"

definition ExtractToolCall ::
  "'t go_env \<Rightarrow> ChatCompletion option \<Rightarrow> err + (string \<times> (string \<rightharpoonup> json))" where
  "ExtractToolCall env resp =
     (case extractToolCallRaw resp of
        Inl e \<Rightarrow> Inl e
      | Inr (toolName, argsJSON) \<Rightarrow>
          (case json_Unmarshal env argsJSON of
             Inl e \<Rightarrow> Inl (''failed to parse tool arguments: '' @ e @
                           '' (raw arguments: '' @ argsJSON @ '')'')
           | Inr args \<Rightarrow> Inr (toolName, args)))"

section \<open>The search tool and the planner agent (Go: internal/agents)\<close>

definition Execute :: "'t go_env \<Rightarrow> string \<Rightarrow> int \<Rightarrow> err + string" where
  "Execute env query nearestNeighbors =
     (case GenerateEmbedding env query of
        Inl e \<Rightarrow> Inl (''failed to generate embedding: '' @ e)
      | Inr queryVector \<Rightarrow>
          (case VectorSearch (Aggregate env) (EmbeddedField env) queryVector nearestNeighbors of
             Inl e \<Rightarrow> Inl (''vector search failed: '' @ e)
           | Inr results \<Rightarrow>
               Inr (Join (map (FormatHotelForSynthesizer (time_Format env)) results)
                         [CHR 0x0A, CHR 0x0A])))"

text \<open>
  \<open>PlannerAgent.Run\<close>. Its value is a pair: the calls of \<open>searchTool.Execute\<close> that the run
  made, each as the query and the neighbour count it was given, and what \<open>Run\<close> returns
  (\<open>Inl\<close> the error, \<open>Inr\<close> the search results). The user message is the
  \<open>fmt.Sprintf\<close> at the head of \<open>Run\<close>.
\<close>

definition plannerUserMessage :: "string \<Rightarrow> int \<Rightarrow> string" where
  "plannerUserMessage userQuery nearestNeighbors =
     ''Search for hotels matching this request: '' @ [CHR 0x22] @ userQuery @ [CHR 0x22] @
     ''. Use nearestNeighbors='' @ show_int nearestNeighbors @ ''.''"

definition Run :: "'t go_env \<Rightarrow> string \<Rightarrow> int \<Rightarrow> (string \<times> int) list \<times> (err + string)" where
  "Run env userQuery nearestNeighbors =
     (let userMessage = plannerUserMessage userQuery nearestNeighbors;
          toolDef = ToolName
      in case ChatCompletionWithTools env (PlannerSystemPrompt env) userMessage [toolDef] of
           Inl e \<Rightarrow> ([], Inl (''planner failed: '' @ e))
         | Inr resp \<Rightarrow>
             (case ExtractToolCall env resp of
                Inl e \<Rightarrow> ([], Inl (''failed to extract tool call: '' @ e))
              | Inr (toolName, argsMap) \<Rightarrow>
                  if toolName \<noteq> ToolName
                  then ([], Inl (''unexpected tool called: '' @ toolName))
                  else
                    (case parseToolArgumentsFromMap argsMap of
                       Inl e \<Rightarrow> ([], Inl (''failed to parse tool arguments: '' @ e))
                     | Inr args0 \<Rightarrow>
                         (let args = (if NearestNeighbors args0 = 0
                                      then args0\<lparr>NearestNeighbors := nearestNeighbors\<rparr>
                                      else args0)
                          in ([(Query args, NearestNeighbors args)],
                              case Execute env (Query args) (NearestNeighbors args) of
                                Inl e \<Rightarrow> Inl (''search tool execution failed: '' @ e)
                              | Inr searchResults \<Rightarrow> Inr searchResults)))))"

section \<open>Bulk insert (Go: VectorStore.InsertHotelsWithEmbeddings)\<close>

text \<open>
  What \<open>collection.InsertMany\<close> of the MongoDB driver returns: a result with the inserted
  ids and no error; or a \<open>mongo.BulkWriteException\<close> (its write errors, its message),
  together with the result holding the ids that were inserted; or another error.
\<close>

record WriteError =
  we_Index :: int
  we_Code :: int
  we_Message :: string

record BulkWriteException =
  WriteErrors :: "WriteError list"
  bwe_Error :: string

datatype 'id insert_outcome =
    InsertedAll "'id list"
  | BulkWriteFailed "'id list" BulkWriteException
  | OtherFailure err

text \<open>
  The collection is a state \<open>'db\<close>; \<open>InsertMany docs ordered db\<close> is the driver's call
  with the documents and the \<open>ordered\<close> option, giving the outcome and the collection
  after it. \<open>Debug\<close> is \<open>vs.config.Debug\<close>. The function returns the error (\<open>None\<close> is
  \<open>nil\<close>), the lines it printed, in order, and the collection after the call.
\<close>

definition newline :: string where
  "newline = [CHR 0x0A]"

definition InsertHotelsWithEmbeddings ::
  "('t HotelForVectorStore list \<Rightarrow> bool \<Rightarrow> 'db \<Rightarrow> 'id insert_outcome \<times> 'db) \<Rightarrow> bool \<Rightarrow>
   't HotelForVectorStore list \<Rightarrow> 'db \<Rightarrow> err option \<times> string list \<times> 'db" where
  "InsertHotelsWithEmbeddings InsertMany Debug hotels db =
     (if length hotels = 0 then (None, [], db)
      else
        (let docs = hotels;
             (outcome, db') = InsertMany docs False db;
             insertedLine = (\<lambda>ids. if Debug
                                   then [''[vectorstore] Inserted '' @ show_int (int (length ids)) @
                                         '' documents'' @ newline]
                                   else [])
         in case outcome of
              InsertedAll ids \<Rightarrow> (None, insertedLine ids, db')
            | BulkWriteFailed ids bulkErr \<Rightarrow>
                (let inserted = int (length docs) - int (length (WriteErrors bulkErr));
                     partialLine = (if Debug
                                    then [''[vectorstore] Partial insert: '' @ show_int inserted @
                                          '' inserted, '' @
                                          show_int (int (length (WriteErrors bulkErr))) @
                                          '' failed'' @ newline]
                                    else [])
                 in if inserted = 0
                    then (Some (''failed to insert any documents: '' @ bwe_Error bulkErr),
                          partialLine, db')
                    else (None,
                          partialLine @
                          [''[vectorstore] Warning: partial insert completed with '' @
                           show_int (int (length (WriteErrors bulkErr))) @ '' errors'' @ newline] @
                          insertedLine ids,
                          db'))
            | OtherFailure e \<Rightarrow> (Some (''failed to insert documents: '' @ e), [], db')))"

section \<open>The TypeScript sample: formatter, search tool, planner output\<close>

text \<open>
  \<open>Partial<HotelForVectorStore>\<close>: every field may be absent (\<open>None\<close> stands for
  \<open>undefined\<close> and \<open>null\<close>, which \<open>??\<close> treats alike).
\<close>

record md_address =
  a_StreetAddress :: "string option"
  a_City :: "string option"
  a_StateProvince :: "string option"
  a_PostalCode :: "string option"
  a_Country :: "string option"

record ts_metadata =
  md_HotelId :: "string option"
  md_HotelName :: "string option"
  md_Description :: "string option"
  md_Category :: "string option"
  md_Tags :: "string list option"
  md_ParkingIncluded :: "bool option"
  md_IsDeleted :: "bool option"
  md_LastRenovationDate :: "string option"
  md_Rating :: "float64 option"
  md_Address :: "md_address option"

text \<open>The empty object \<open>{}\<close> as an address.\<close>

definition empty_address :: md_address where
  "empty_address = \<lparr>a_StreetAddress = None, a_City = None, a_StateProvince = None,
                     a_PostalCode = None, a_Country = None\<rparr>"

text \<open>\<open>x ?? d\<close>.\<close>

definition nullish :: "'a option \<Rightarrow> 'a \<Rightarrow> 'a" where
  "nullish x d = (case x of Some v \<Rightarrow> v | None \<Rightarrow> d)"

text \<open>
  A value held by the \<open>fields\<close> object, and its conversion to a string in the template
  literal \<open>`${key}: ${value}`\<close>.
\<close>

datatype field_value = VString string | VBool bool | VNumber float64

fun template_string :: "(float64 \<Rightarrow> string) \<Rightarrow> field_value \<Rightarrow> string" where
  "template_string numToString (VString s) = s"
| "template_string numToString (VBool b) = (if b then ''true'' else ''false'')"
| "template_string numToString (VNumber x) = numToString x"

definition formatAddress :: "md_address \<Rightarrow> (string \<times> field_value) list" where
  "formatAddress addr =
     [(''Address.StreetAddress'', VString (nullish (a_StreetAddress addr) '''')),
      (''Address.City'', VString (nullish (a_City addr) '''')),
      (''Address.StateProvince'', VString (nullish (a_StateProvince addr) '''')),
      (''Address.PostalCode'', VString (nullish (a_PostalCode addr) '''')),
      (''Address.Country'', VString (nullish (a_Country addr) ''''))]"

text \<open>The object \<open>fields\<close> of \<open>formatHotelForSynthesizer\<close>, as its entries in insertion order.\<close>

definition hotel_fields ::
  "(float64 \<Rightarrow> string) \<Rightarrow> ts_metadata \<Rightarrow> float64 option \<Rightarrow> (string \<times> field_value) list" where
  "hotel_fields numToString md score =
     (let addr = (case md_Address md of Some a \<Rightarrow> a | None \<Rightarrow> empty_address);
          tags = (case md_Tags md of Some ts \<Rightarrow> Join ts '', '' | None \<Rightarrow> '''')
      in [(''HotelId'', VString (nullish (md_HotelId md) ''N/A'')),
          (''HotelName'', VString (nullish (md_HotelName md) ''N/A'')),
          (''Description'', VString (nullish (md_Description md) '''')),
          (''Category'', VString (nullish (md_Category md) '''')),
          (''Tags'', VString tags),
          (''ParkingIncluded'', VBool (md_ParkingIncluded md = Some True)),
          (''IsDeleted'', VBool (md_IsDeleted md = Some True)),
          (''LastRenovationDate'', VString (nullish (md_LastRenovationDate md) '''')),
          (''Rating'', (case md_Rating md of Some r \<Rightarrow> VNumber r | None \<Rightarrow> VString ''''))] @
         formatAddress addr @
         [(''Score'', VString (toFixed numToString 6 (nullish score 0)))])"

definition formatHotelForSynthesizer ::
  "(float64 \<Rightarrow> string) \<Rightarrow> ts_metadata \<Rightarrow> float64 option \<Rightarrow> string" where
  "formatHotelForSynthesizer numToString md score =
     Join ([''--- HOTEL START ---''] @
           map (\<lambda>(key, value). key @ '': '' @ template_string numToString value)
               (hotel_fields numToString md score) @
           [''--- HOTEL END ---''])
          newline"

text \<open>
  What the tool reads from \<open>config.context\<close>: the embedding client's \<open>embedQuery\<close> and the
  store's \<open>similaritySearchVectorWithScore\<close>, either of which may throw (\<open>Inl\<close>). A
  returned document carries its metadata, which the tool casts without a check; on missing
  metadata (\<open>None\<close>) the property access \<open>md.HotelName\<close> throws a \<open>TypeError\<close>, and so does
  \<open>config.context.store\<close> when the context itself is missing.
\<close>

record ts_context =
  embedQuery :: "string \<Rightarrow> err + float64 list"
  similaritySearchVectorWithScore ::
    "float64 list \<Rightarrow> float64 \<Rightarrow> err + (ts_metadata option \<times> float64 option) list"

fun format_results ::
  "(float64 \<Rightarrow> string) \<Rightarrow> (ts_metadata option \<times> float64 option) list \<Rightarrow> err + string list" where
  "format_results numToString [] = Inr []"
| "format_results numToString ((None, score) # rest) =
     Inl ''TypeError: Cannot read properties of undefined''"
| "format_results numToString ((Some md, score) # rest) =
     (case format_results numToString rest of
        Inl e \<Rightarrow> Inl e
      | Inr blocks \<Rightarrow> Inr (formatHotelForSynthesizer numToString md score # blocks))"

text \<open>The body of the \<open>try\<close> block of the tool function.\<close>

definition search_tool_try ::
  "(float64 \<Rightarrow> string) \<Rightarrow> ts_context option \<Rightarrow> string \<Rightarrow> float64 \<Rightarrow> err + string" where
  "search_tool_try numToString context query nearestNeighbors =
     (case context of
        None \<Rightarrow> Inl ''TypeError: Cannot read properties of undefined''
      | Some c \<Rightarrow>
          (case embedQuery c query of
             Inl e \<Rightarrow> Inl e
           | Inr queryVector \<Rightarrow>
               (case similaritySearchVectorWithScore c queryVector nearestNeighbors of
                  Inl e \<Rightarrow> Inl e
                | Inr results \<Rightarrow>
                    (case format_results numToString results of
                       Inl e \<Rightarrow> Inl e
                     | Inr formatted \<Rightarrow> Inr (Join formatted (newline @ newline))))))"

text \<open>The tool function: the \<open>try\<close> block, and the \<open>catch\<close> that returns a fixed string.\<close>

definition getHotelsToMatchSearchQuery ::
  "(float64 \<Rightarrow> string) \<Rightarrow> ts_context option \<Rightarrow> string \<Rightarrow> float64 \<Rightarrow> string" where
  "getHotelsToMatchSearchQuery numToString context query nearestNeighbors =
     (case search_tool_try numToString context query nearestNeighbors of
        Inl error \<Rightarrow> ''Error occurred while searching for hotels.''
      | Inr formatted \<Rightarrow> formatted)"

text \<open>
  The tool's input schema,
  \<open>z.object({ query: z.string(), nearestNeighbors: z.number().optional().default(5) })\<close>,
  applied to the arguments of a tool call: \<open>query\<close> must be a string; \<open>nearestNeighbors\<close>
  must be a number when present and becomes 5 when absent. The framework calls the tool
  function with the parsed arguments, and rejects the call when parsing fails.
\<close>

definition tool_schema :: "(string \<rightharpoonup> json) \<Rightarrow> err + (string \<times> float64)" where
  "tool_schema args =
     (case args ''query'' of
        Some (JString query) \<Rightarrow>
          (case args ''nearestNeighbors'' of
             None \<Rightarrow> Inr (query, 5)
           | Some (JNumber n) \<Rightarrow> Inr (query, n)
           | Some _ \<Rightarrow> Inl ''ZodError: nearestNeighbors'')
      | _ \<Rightarrow> Inl ''ZodError: query'')"

definition invoke_search_tool ::
  "(float64 \<Rightarrow> string) \<Rightarrow> ts_context option \<Rightarrow> (string \<rightharpoonup> json) \<Rightarrow> err + (float64 \<times> string)" where
  "invoke_search_tool numToString context args =
     (case tool_schema args of
        Inl e \<Rightarrow> Inl e
      | Inr (query, nearestNeighbors) \<Rightarrow>
          Inr (nearestNeighbors,
               getHotelsToMatchSearchQuery numToString context query nearestNeighbors))"

text \<open>
  A message of the planner agent's history, as far as \<open>extractPlannerToolOutput\<close> looks at
  it; a list entry may be \<open>null\<close> (\<open>None\<close>). The content is a string, an array of blocks
  (a block has an optional \<open>text\<close>), or something else; \<open>stringify\<close> is \<open>JSON.stringify\<close>.
\<close>

record ts_block =
  b_text :: "string option"
  b_json :: json

datatype ts_content = CString string | CBlocks "ts_block list" | COther json

record ts_message =
  m_name :: "string option"
  m_role :: "string option"
  m_tool_call_id :: "string option"
  m_content :: ts_content

definition is_tool_message :: "ts_message option \<Rightarrow> bool" where
  "is_tool_message m =
     (case m of
        None \<Rightarrow> False
      | Some msg \<Rightarrow>
          if m_name msg = Some ToolName then True
          else if m_role msg = Some ''tool'' then True
          else if m_tool_call_id msg \<noteq> None \<and> m_tool_call_id msg \<noteq> Some '''' then True
          else False)"

definition extractPlannerToolOutput :: "(json \<Rightarrow> string) \<Rightarrow> ts_message option list \<Rightarrow> string" where
  "extractPlannerToolOutput stringify plannerMessages =
     (case find is_tool_message plannerMessages of
        Some (Some toolMsg) \<Rightarrow>
          (case m_content toolMsg of
             CString s \<Rightarrow> s
           | CBlocks blocks \<Rightarrow>
               Join (map (\<lambda>block. nullish (b_text block) (stringify (b_json block))) blocks) ''''
           | COther v \<Rightarrow> stringify v)
      | _ \<Rightarrow> '''')"

text \<open>
  \<open>runPlannerAgent\<close>: \<open>invoke\<close> is the agent framework's \<open>agent.invoke\<close> on the user message
  (it runs the model and the tool), which gives the message history, possibly none, or
  throws.
\<close>

definition runPlannerAgent ::
  "(float64 \<Rightarrow> string) \<Rightarrow> (json \<Rightarrow> string) \<Rightarrow> (string \<Rightarrow> err + ts_message option list option) \<Rightarrow>
   string \<Rightarrow> float64 \<Rightarrow> err + string" where
  "runPlannerAgent numToString stringify invoke userQuery nearestNeighbors =
     (let userMessage = ''Use the '' @ [CHR 0x22] @ ToolName @ [CHR 0x22] @
                        '' tool with nearestNeighbors='' @ numToString nearestNeighbors @
                        '' and query='' @ [CHR 0x22] @ userQuery @ [CHR 0x22] @
                        ''. Do not answer directly; call the tool.''
      in case invoke userMessage of
           Inl e \<Rightarrow> Inl e
         | Inr messages \<Rightarrow>
             (let plannerMessages = (case messages of Some ms \<Rightarrow> ms | None \<Rightarrow> [])
              in Inr (extractPlannerToolOutput stringify plannerMessages)))"

section \<open>The ordering the specification asks of a search result\<close>

text \<open>
  The three similarity metrics of the index configuration (\<open>getSimilarityType\<close> in the
  TypeScript sample). In the specification's words a score is better when it is larger
  for cosine and inner product, and when it is smaller for L2; a result is best match
  first when no element is followed by a better one.
\<close>

datatype similarity = COS | L2 | IP

definition spec_at_least_as_good :: "similarity \<Rightarrow> float64 \<Rightarrow> float64 \<Rightarrow> bool" where
  "spec_at_least_as_good sim a b = (case sim of L2 \<Rightarrow> a \<le> b | _ \<Rightarrow> b \<le> a)"

definition spec_best_first :: "similarity \<Rightarrow> 't HotelSearchResult list \<Rightarrow> bool" where
  "spec_best_first sim results =
     sorted_wrt (\<lambda>r s. spec_at_least_as_good sim (Score r) (Score s)) results"

section \<open>Concrete collaborators for evaluation\<close>

text \<open>
  Small stand-ins for the external services, used to run the definitions on concrete
  inputs: two hotels, a collection that answers a search with its first \<open>k\<close> documents,
  a JSON decoder that knows three argument texts, and a model that answers with a given
  completion.
\<close>

definition dq :: string where
  "dq = [CHR 0x22]"

definition args_query_only :: string where
  "args_query_only = ''{'' @ dq @ ''query'' @ dq @ '':'' @ dq @ ''hotel with a pool'' @ dq @ ''}''"

definition args_query_k0 :: string where
  "args_query_k0 = ''{'' @ dq @ ''query'' @ dq @ '':'' @ dq @ ''hotel with a pool'' @ dq @ '','' @
                   dq @ ''nearestNeighbors'' @ dq @ '':0}''"

definition args_query_k2 :: string where
  "args_query_k2 = ''{'' @ dq @ ''query'' @ dq @ '':'' @ dq @ ''hotel with a pool'' @ dq @ '','' @
                   dq @ ''nearestNeighbors'' @ dq @ '':2}''"

definition sample_Unmarshal :: "string \<Rightarrow> err + (string \<rightharpoonup> json)" where
  "sample_Unmarshal s =
     (if s = args_query_only then Inr [''query'' \<mapsto> JString ''hotel with a pool'']
      else if s = args_query_k0
      then Inr [''query'' \<mapsto> JString ''hotel with a pool'', ''nearestNeighbors'' \<mapsto> JNumber 0]
      else if s = args_query_k2
      then Inr [''query'' \<mapsto> JString ''hotel with a pool'', ''nearestNeighbors'' \<mapsto> JNumber 2]
      else Inl ''unexpected end of JSON input'')"

definition hotel_a :: "unit HotelForVectorStore" where
  "hotel_a = \<lparr>HotelID = ''1'', HotelName = ''Stay-Kay City Hotel'', Description = ''Classic hotel'',
              Category = ''Boutique'', Tags = [''view'', ''pool''], ParkingIncluded = False,
              IsDeleted = False, LastRenovationDate = (), Rating = 18 / 5,
              Address = \<lparr>StreetAddress = ''677 5th Ave'', City = ''New York'', StateProvince = ''NY'',
                         PostalCode = ''10022'', Country = ''USA''\<rparr>,
              DescriptionVector = []\<rparr>"

definition hotel_b :: "unit HotelForVectorStore" where
  "hotel_b = \<lparr>HotelID = ''2'', HotelName = ''Old Century Hotel'', Description = ''Historic inn'',
              Category = ''Budget'', Tags = [], ParkingIncluded = True,
              IsDeleted = False, LastRenovationDate = (), Rating = 4,
              Address = \<lparr>StreetAddress = ''140 University Town Center Dr'', City = ''Sarasota'',
                         StateProvince = ''FL'', PostalCode = ''34243'', Country = ''USA''\<rparr>,
              DescriptionVector = []\<rparr>"

definition sample_env :: "unit cursor_doc list \<Rightarrow> ChatCompletion option \<Rightarrow> unit go_env" where
  "sample_env stored resp =
     \<lparr>Chat_Completions_New = (\<lambda>request. Inr resp),
      Embeddings_New = (\<lambda>text. Inr [[1 / 2, 1 / 4]]),
      to_float32 = (\<lambda>v. v),
      json_Unmarshal = sample_Unmarshal,
      Aggregate = (\<lambda>p. Inr \<lparr>docs = take (nat (p_k p)) stored, cursor_Err = None\<rparr>),
      time_Format = (\<lambda>t. ''2020-02-06''),
      EmbeddedField = ''DescriptionVector'',
      PlannerSystemPrompt = ''You are a hotel search planner.''\<rparr>"

definition best_first_docs :: "unit cursor_doc list" where
  "best_first_docs = [Decodes (9 / 10) hotel_a, Decodes (1 / 10) hotel_b]"

definition best_last_docs :: "unit cursor_doc list" where
  "best_last_docs = [Decodes (1 / 10) hotel_b, Decodes (9 / 10) hotel_a]"

text \<open>A provider whose embedding endpoint rejects every request.\<close>

definition no_embedding_env :: "ChatCompletion option \<Rightarrow> unit go_env" where
  "no_embedding_env resp =
     (sample_env best_first_docs resp)\<lparr>Embeddings_New := (\<lambda>text. Inl ''401 Unauthorized'')\<rparr>"

definition tool_call_response :: "string \<Rightarrow> string \<Rightarrow> string \<Rightarrow> ChatCompletion" where
  "tool_call_response finish name arguments =
     \<lparr>Choices = [\<lparr>FinishReason = finish,
                   Message = \<lparr>Content = '''',
                              ToolCalls = [\<lparr>tc_Type = ''function'', tc_Name = name,
                                            tc_Arguments = arguments\<rparr>]\<rparr>\<rparr>]\<rparr>"

definition text_response :: "string \<Rightarrow> string \<Rightarrow> ChatCompletion" where
  "text_response finish content =
     \<lparr>Choices = [\<lparr>FinishReason = finish,
                   Message = \<lparr>Content = content, ToolCalls = []\<rparr>\<rparr>]\<rparr>"

text \<open>
  A collection with a unique key on the hotel id: the state is the ids it holds and the
  number of \<open>InsertMany\<close> calls it has served. An unordered insert stores every document
  whose id is new and reports a duplicate-key write error for each of the others.
\<close>

fun insert_each ::
  "unit HotelForVectorStore list \<Rightarrow> int \<Rightarrow> string list \<Rightarrow> string list \<times> WriteError list \<times> string list" where
  "insert_each [] i held = ([], [], held)"
| "insert_each (d # ds) i held =
     (if HotelID d \<in> set held
      then (let (ids, errs, held') = insert_each ds (i + 1) held
            in (ids, \<lparr>we_Index = i, we_Code = 11000, we_Message = ''E11000 duplicate key''\<rparr> # errs,
                held'))
      else (let (ids, errs, held') = insert_each ds (i + 1) (held @ [HotelID d])
            in (HotelID d # ids, errs, held')))"

definition sample_InsertMany ::
  "unit HotelForVectorStore list \<Rightarrow> bool \<Rightarrow> string list \<times> nat \<Rightarrow> string insert_outcome \<times> (string list \<times> nat)" where
  "sample_InsertMany documents ordered db =
     (let (ids, errs, held') = insert_each documents 0 (fst db)
      in (if errs = [] then InsertedAll ids
          else BulkWriteFailed ids \<lparr>WriteErrors = errs, bwe_Error = ''bulk write exception''\<rparr>,
          (held', snd db + 1)))"

text \<open>The TypeScript side: a metadata object with no field at all, and a context.\<close>

definition no_metadata_fields :: ts_metadata where
  "no_metadata_fields =
     \<lparr>md_HotelId = None, md_HotelName = None, md_Description = None, md_Category = None,
      md_Tags = None, md_ParkingIncluded = None, md_IsDeleted = None,
      md_LastRenovationDate = None, md_Rating = None, md_Address = None\<rparr>"

definition sample_numToString :: "float64 \<Rightarrow> string" where
  "sample_numToString x = (if x = of_int \<lfloor>x\<rfloor> then show_int \<lfloor>x\<rfloor> else fmt_f 1 x)"

definition sample_context :: ts_context where
  "sample_context =
     \<lparr>embedQuery = (\<lambda>text. Inr [1 / 2, 1 / 4]),
      similaritySearchVectorWithScore =
        (\<lambda>v k. Inr (take (nat \<lfloor>k\<rfloor>) [(Some no_metadata_fields, None),
                                     (Some (no_metadata_fields\<lparr>md_HotelName := Some ''Old Century Hotel''\<rparr>),
                                      Some (7 / 8))]))\<rparr>"

text \<open>A message history in which the model answered in text and no tool ran.\<close>

definition text_only_history :: "ts_message option list" where
  "text_only_history =
     [Some \<lparr>m_name = None, m_role = None, m_tool_call_id = None,
            m_content = CString ''Use the tool.''\<rparr>,
      Some \<lparr>m_name = None, m_role = None, m_tool_call_id = None,
            m_content = CString ''I would pick the Old Century Hotel.''\<rparr>]"

text \<open>
  Two TypeScript contexts that fail: one whose embedding client throws, one whose store
  returns a document without metadata.
\<close>

definition no_embedding_context :: ts_context where
  "no_embedding_context = sample_context\<lparr>embedQuery := (\<lambda>text. Inl ''401 Unauthorized'')\<rparr>"

definition no_metadata_context :: ts_context where
  "no_metadata_context =
     sample_context\<lparr>similaritySearchVectorWithScore := (\<lambda>v k. Inr [(None, Some (1 / 2))])\<rparr>"

text \<open>The text blocks expected for the two hotels with scores 9/10 and 1/10.\<close>

definition hotel_a_block :: string where
  "hotel_a_block =
     Join [''--- HOTEL START ---'', ''HotelId: 1'', ''HotelName: Stay-Kay City Hotel'',
           ''Description: Classic hotel'', ''Category: Boutique'', ''Tags: view, pool'',
           ''ParkingIncluded: false'', ''IsDeleted: false'', ''LastRenovationDate: 2020-02-06'',
           ''Rating: 3.6'', ''Address.StreetAddress: 677 5th Ave'', ''Address.City: New York'',
           ''Address.StateProvince: NY'', ''Address.PostalCode: 10022'', ''Address.Country: USA'',
           ''Score: 0.900000'', ''--- HOTEL END ---''] newline"

definition hotel_b_block :: string where
  "hotel_b_block =
     Join [''--- HOTEL START ---'', ''HotelId: 2'', ''HotelName: Old Century Hotel'',
           ''Description: Historic inn'', ''Category: Budget'', ''Tags: '',
           ''ParkingIncluded: true'', ''IsDeleted: false'', ''LastRenovationDate: 2020-02-06'',
           ''Rating: 4.0'', ''Address.StreetAddress: 140 University Town Center Dr'',
           ''Address.City: Sarasota'', ''Address.StateProvince: FL'', ''Address.PostalCode: 34243'',
           ''Address.Country: USA'', ''Score: 0.100000'', ''--- HOTEL END ---''] newline"

text \<open>The blocks expected from the TypeScript tool for the two documents of its store.\<close>

definition no_fields_block :: string where
  "no_fields_block =
     Join [''--- HOTEL START ---'', ''HotelId: N/A'', ''HotelName: N/A'', ''Description: '',
           ''Category: '', ''Tags: '', ''ParkingIncluded: false'', ''IsDeleted: false'',
           ''LastRenovationDate: '', ''Rating: '', ''Address.StreetAddress: '',
           ''Address.City: '', ''Address.StateProvince: '', ''Address.PostalCode: '',
           ''Address.Country: '', ''Score: 0.000000'', ''--- HOTEL END ---''] newline"

definition name_only_block :: string where
  "name_only_block =
     Join [''--- HOTEL START ---'', ''HotelId: N/A'', ''HotelName: Old Century Hotel'',
           ''Description: '', ''Category: '', ''Tags: '', ''ParkingIncluded: false'',
           ''IsDeleted: false'', ''LastRenovationDate: '', ''Rating: '',
           ''Address.StreetAddress: '', ''Address.City: '', ''Address.StateProvince: '',
           ''Address.PostalCode: '', ''Address.Country: '', ''Score: 0.875000'',
           ''--- HOTEL END ---''] newline"

section \<open>Theorems\<close>

lemma parse_query_string:
  "argsMap ''query'' = Some (JString q) \<Longrightarrow>
   parseToolArgumentsFromMap argsMap =
     Inr \<lparr>Query = q,
          NearestNeighbors = (case argsMap ''nearestNeighbors'' of
                                Some (JNumber nn) \<Rightarrow> int_of_float64 nn | _ \<Rightarrow> 0)\<rparr>"
  by (simp add: parseToolArgumentsFromMap_def)

lemma parse_isl_iff:
  "isl (parseToolArgumentsFromMap argsMap) = (\<not> (\<exists>q. argsMap ''query'' = Some (JString q)))"
  by (auto simp: parseToolArgumentsFromMap_def split: option.splits json.splits)

subsection \<open>The planner's run, case by case\<close>

lemma Run_chat_error:
  "ChatCompletionWithTools env (PlannerSystemPrompt env) (plannerUserMessage q k) [ToolName] = Inl e \<Longrightarrow>
   Run env q k = ([], Inl (''planner failed: '' @ e))"
  by (simp add: Run_def)

lemma Run_extract_error:
  "ChatCompletionWithTools env (PlannerSystemPrompt env) (plannerUserMessage q k) [ToolName] = Inr resp \<Longrightarrow>
   ExtractToolCall env resp = Inl e \<Longrightarrow>
   Run env q k = ([], Inl (''failed to extract tool call: '' @ e))"
  by (simp add: Run_def)

lemma Run_wrong_tool:
  "ChatCompletionWithTools env (PlannerSystemPrompt env) (plannerUserMessage q k) [ToolName] = Inr resp \<Longrightarrow>
   ExtractToolCall env resp = Inr (name, m) \<Longrightarrow> name \<noteq> ToolName \<Longrightarrow>
   Run env q k = ([], Inl (''unexpected tool called: '' @ name))"
  by (simp add: Run_def)

lemma Run_parse_error:
  "ChatCompletionWithTools env (PlannerSystemPrompt env) (plannerUserMessage q k) [ToolName] = Inr resp \<Longrightarrow>
   ExtractToolCall env resp = Inr (ToolName, m) \<Longrightarrow> parseToolArgumentsFromMap m = Inl e \<Longrightarrow>
   Run env q k = ([], Inl (''failed to parse tool arguments: '' @ e))"
  by (simp add: Run_def)

lemma Run_executes:
  "ChatCompletionWithTools env (PlannerSystemPrompt env) (plannerUserMessage q k) [ToolName] = Inr resp \<Longrightarrow>
   ExtractToolCall env resp = Inr (ToolName, m) \<Longrightarrow> parseToolArgumentsFromMap m = Inr args \<Longrightarrow>
   k' = (if NearestNeighbors args = 0 then k else NearestNeighbors args) \<Longrightarrow>
   Run env q k =
     ([(Query args, k')],
      case Execute env (Query args) k' of
        Inl e \<Rightarrow> Inl (''search tool execution failed: '' @ e)
      | Inr searchResults \<Rightarrow> Inr searchResults)"
  by (simp add: Run_def Let_def)

lemma Run_invoked_cases:
  assumes "fst (Run env q k) \<noteq> []"
  shows "\<exists>resp m args.
           ChatCompletionWithTools env (PlannerSystemPrompt env) (plannerUserMessage q k) [ToolName] = Inr resp \<and>
           ExtractToolCall env resp = Inr (ToolName, m) \<and> parseToolArgumentsFromMap m = Inr args"
  using assms
  by (auto simp: Run_def Let_def split: sum.splits prod.splits if_splits)

lemma extract_raw_bad_finish:
  "Choices r = c # cs \<Longrightarrow> FinishReason c \<noteq> ''tool_calls'' \<Longrightarrow> FinishReason c \<noteq> ''stop'' \<Longrightarrow>
   isl (extractToolCallRaw (Some r))"
  by (simp add: extractToolCallRaw_def)

lemma extract_raw_no_tool_calls:
  "Choices r = c # cs \<Longrightarrow> ToolCalls (Message c) = [] \<Longrightarrow> isl (extractToolCallRaw (Some r))"
  by (simp add: extractToolCallRaw_def Let_def)

lemma extract_raw_text_only:
  "Choices r = c # cs \<Longrightarrow> FinishReason c = ''tool_calls'' \<or> FinishReason c = ''stop'' \<Longrightarrow>
   ToolCalls (Message c) = [] \<Longrightarrow> Content (Message c) \<noteq> [] \<Longrightarrow>
   extractToolCallRaw (Some r) =
     Inl (''no tool calls in response - model returned: '' @ Content (Message c))"
  by (auto simp add: extractToolCallRaw_def Let_def)

lemma extract_raw_Inr:
  assumes "extractToolCallRaw resp = Inr (name, arguments)"
  shows "\<exists>r c cs tc tcs. resp = Some r \<and> Choices r = c # cs \<and>
           (FinishReason c = ''tool_calls'' \<or> FinishReason c = ''stop'') \<and>
           ToolCalls (Message c) = tc # tcs \<and> tc_Type tc = ''function'' \<and>
           tc_Name tc = name \<and> tc_Arguments tc = arguments"
  using assms
  by (auto simp: extractToolCallRaw_def Let_def split: option.splits list.splits if_splits)

lemma ExtractToolCall_raw_error:
  "extractToolCallRaw resp = Inl e \<Longrightarrow> ExtractToolCall env resp = Inl e"
  by (simp add: ExtractToolCall_def)

lemma ExtractToolCall_Inr:
  "ExtractToolCall env resp = Inr (name, m) \<Longrightarrow>
   \<exists>arguments. extractToolCallRaw resp = Inr (name, arguments) \<and> json_Unmarshal env arguments = Inr m"
  by (auto simp: ExtractToolCall_def split: sum.splits prod.splits)

lemma ExtractToolCall_ok:
  "extractToolCallRaw resp = Inr (name, arguments) \<Longrightarrow> json_Unmarshal env arguments = Inr m \<Longrightarrow>
   ExtractToolCall env resp = Inr (name, m)"
  by (simp add: ExtractToolCall_def)

subsection \<open>The concrete collaborators, evaluated\<close>

lemma sample_chat:
  "ChatCompletionWithTools (sample_env stored (Some r)) p u [ToolName] = Inr (Some r)"
  by (simp add: ChatCompletionWithTools_def sample_env_def)

lemma sample_extract_query_only:
  "ExtractToolCall (sample_env stored resp) (Some (tool_call_response ''tool_calls'' ToolName args_query_only)) =
     Inr (ToolName, [''query'' \<mapsto> JString ''hotel with a pool''])"
  by (simp add: ExtractToolCall_def extractToolCallRaw_def tool_call_response_def sample_env_def
      sample_Unmarshal_def)

subsection \<open>Parsing the tool arguments\<close>

text \<open>
  Claim C10. The Go tool-argument parser fails exactly when the \<open>query\<close> entry is
  missing or is not a string. When \<open>query\<close> is a string and \<open>nearestNeighbors\<close> is
  missing or is not a number, parsing succeeds with the neighbour count 0, and a run that
  extracted these arguments for the expected tool calls the search tool with the caller's
  \<open>k\<close> instead.
\<close>

theorem parse_fails_iff_query_not_string:
  "(isl (parseToolArgumentsFromMap m) \<longleftrightarrow> (\<forall>s. m ''query'' \<noteq> Some (JString s))) \<and>
   (m ''query'' = Some (JString q) \<and> (\<forall>x. m ''nearestNeighbors'' \<noteq> Some (JNumber x)) \<longrightarrow>
      parseToolArgumentsFromMap m = Inr \<lparr>Query = q, NearestNeighbors = 0\<rparr>) \<and>
   (m ''query'' = Some (JString q) \<and> (\<forall>x. m ''nearestNeighbors'' \<noteq> Some (JNumber x)) \<and>
    ChatCompletionWithTools env (PlannerSystemPrompt env) (plannerUserMessage userQuery k) [ToolName] = Inr resp \<and>
    ExtractToolCall env resp = Inr (ToolName, m) \<longrightarrow>
      fst (Run env userQuery k) = [(q, k)])"
proof -
  have a: "isl (parseToolArgumentsFromMap m) \<longleftrightarrow> (\<forall>s. m ''query'' \<noteq> Some (JString s))"
    using parse_isl_iff [of m] by simp
  have b: "parseToolArgumentsFromMap m = Inr \<lparr>Query = q, NearestNeighbors = 0\<rparr>"
    if "m ''query'' = Some (JString q)" "\<forall>x. m ''nearestNeighbors'' \<noteq> Some (JNumber x)"
    using that parse_query_string [of m q]
    by (auto split: option.splits json.splits)
  have c: "fst (Run env userQuery k) = [(q, k)]"
    if "m ''query'' = Some (JString q)" "\<forall>x. m ''nearestNeighbors'' \<noteq> Some (JNumber x)"
       "ChatCompletionWithTools env (PlannerSystemPrompt env) (plannerUserMessage userQuery k) [ToolName] = Inr resp"
       "ExtractToolCall env resp = Inr (ToolName, m)"
    using Run_executes [OF that(3) that(4) b [OF that(1) that(2)], of k] by simp
  from a b c show ?thesis by blast
qed

theorem parse_fails_iff_query_not_string_witness:
  "isl (parseToolArgumentsFromMap [''nearestNeighbors'' \<mapsto> JNumber 3]) \<and>
   parseToolArgumentsFromMap [''query'' \<mapsto> JString ''hotel with a pool'', ''nearestNeighbors'' \<mapsto> JString ''many''] =
     Inr \<lparr>Query = ''hotel with a pool'', NearestNeighbors = 0\<rparr> \<and>
   fst (Run (sample_env best_first_docs (Some (tool_call_response ''tool_calls'' ToolName args_query_only)))
          ''cheap hotel'' 4) = [(''hotel with a pool'', 4)]"
proof -
  let ?r = "tool_call_response ''tool_calls'' ToolName args_query_only"
  let ?env = "sample_env best_first_docs (Some ?r)"
  let ?m = "[''query'' \<mapsto> JString ''hotel with a pool'']"
  have 1: "isl (parseToolArgumentsFromMap [''nearestNeighbors'' \<mapsto> JNumber 3])"
    using parse_fails_iff_query_not_string [of "[''nearestNeighbors'' \<mapsto> JNumber 3]" "''x''" ?env "''cheap hotel''" 4 "Some ?r"] by simp
  have 2: "parseToolArgumentsFromMap [''query'' \<mapsto> JString ''hotel with a pool'', ''nearestNeighbors'' \<mapsto> JString ''many''] =
     Inr \<lparr>Query = ''hotel with a pool'', NearestNeighbors = 0\<rparr>"
    using parse_fails_iff_query_not_string
      [of "[''query'' \<mapsto> JString ''hotel with a pool'', ''nearestNeighbors'' \<mapsto> JString ''many'']"
          "''hotel with a pool''" ?env "''cheap hotel''" 4 "Some ?r"]
    by simp
  have q: "?m ''query'' = Some (JString ''hotel with a pool'')" by simp
  have n: "\<forall>x. ?m ''nearestNeighbors'' \<noteq> Some (JNumber x)" by simp
  have 3: "fst (Run ?env ''cheap hotel'' 4) = [(''hotel with a pool'', 4)]"
    using parse_fails_iff_query_not_string [of ?m "''hotel with a pool''" ?env "''cheap hotel''" 4 "Some ?r"]
      q n sample_chat [of best_first_docs ?r] sample_extract_query_only [of best_first_docs "Some ?r"]
    by blast
  from 1 2 3 show ?thesis by blast
qed

lemma sample_extract_call:
  "sample_Unmarshal arguments = Inr m \<Longrightarrow>
   ExtractToolCall (sample_env stored resp) (Some (tool_call_response ''tool_calls'' name arguments)) =
     Inr (name, m)"
  by (simp add: ExtractToolCall_def extractToolCallRaw_def tool_call_response_def sample_env_def)

lemma sample_Unmarshal_k2:
  "sample_Unmarshal args_query_k2 =
     Inr [''query'' \<mapsto> JString ''hotel with a pool'', ''nearestNeighbors'' \<mapsto> JNumber 2]"
  by (simp add: sample_Unmarshal_def args_query_k2_def args_query_k0_def args_query_only_def dq_def)

lemma sample_Unmarshal_k0:
  "sample_Unmarshal args_query_k0 =
     Inr [''query'' \<mapsto> JString ''hotel with a pool'', ''nearestNeighbors'' \<mapsto> JNumber 0]"
  by (simp add: sample_Unmarshal_def args_query_k2_def args_query_k0_def args_query_only_def dq_def)

lemma sample_Unmarshal_query_only:
  "sample_Unmarshal args_query_only = Inr [''query'' \<mapsto> JString ''hotel with a pool'']"
  by (simp add: sample_Unmarshal_def)

lemma int_of_float64_2: "int_of_float64 2 = 2"
  by (simp add: int_of_float64_def)

lemma sample_Run_calls_k2:
  "fst (Run (sample_env stored (Some (tool_call_response ''tool_calls'' ToolName args_query_k2)))
         userQuery k) = [(''hotel with a pool'', 2)]"
proof -
  let ?m = "[''query'' \<mapsto> JString ''hotel with a pool'', ''nearestNeighbors'' \<mapsto> JNumber 2]"
  have p: "parseToolArgumentsFromMap ?m = Inr \<lparr>Query = ''hotel with a pool'', NearestNeighbors = 2\<rparr>"
    by (simp add: parseToolArgumentsFromMap_def int_of_float64_2)
  show ?thesis
    using Run_executes [OF sample_chat sample_extract_call [OF sample_Unmarshal_k2] p refl]
    by simp
qed

subsection \<open>Finish reason and tool name\<close>

text \<open>
  Claim C7. When the planner model has answered and the answer has a first choice:
  \<open>Run\<close> fails, calling no tool, if the finish reason of that choice is neither
  \<open>tool_calls\<close> nor \<open>stop\<close> (for \<open>length\<close> with the cut-off error); it fails if the first
  tool call names a tool other than the search tool (with the unexpected-tool error when
  its arguments decode); and whenever \<open>Run\<close> did call the search tool, the finish reason
  was \<open>tool_calls\<close> or \<open>stop\<close> and the first tool call named the search tool.
\<close>

theorem Run_checks_finish_reason_and_tool_name:
  assumes chat: "ChatCompletionWithTools env (PlannerSystemPrompt env) (plannerUserMessage q k) [ToolName] = Inr (Some resp)"
      and ch: "Choices resp = c # cs"
  shows "(FinishReason c \<noteq> ''tool_calls'' \<and> FinishReason c \<noteq> ''stop'' \<longrightarrow>
            (\<exists>e. Run env q k = ([], Inl e))) \<and>
         (FinishReason c = ''length'' \<longrightarrow>
            Run env q k =
              ([], Inl ''failed to extract tool call: response was cut off (length limit exceeded)'')) \<and>
         (\<forall>tc tcs. ToolCalls (Message c) = tc # tcs \<and> tc_Name tc \<noteq> ToolName \<longrightarrow>
            (\<exists>e. Run env q k = ([], Inl e))) \<and>
         (\<forall>name arguments m. extractToolCallRaw (Some resp) = Inr (name, arguments) \<and>
            json_Unmarshal env arguments = Inr m \<and> name \<noteq> ToolName \<longrightarrow>
            Run env q k = ([], Inl (''unexpected tool called: '' @ name))) \<and>
         (fst (Run env q k) \<noteq> [] \<longrightarrow>
            (FinishReason c = ''tool_calls'' \<or> FinishReason c = ''stop'') \<and>
            (\<exists>tc tcs. ToolCalls (Message c) = tc # tcs \<and> tc_Name tc = ToolName))"
proof -
  have finish: "\<exists>e. Run env q k = ([], Inl e)"
    if "FinishReason c \<noteq> ''tool_calls''" "FinishReason c \<noteq> ''stop''"
  proof -
    from extract_raw_bad_finish [OF ch that] obtain e where "extractToolCallRaw (Some resp) = Inl e"
      by (cases "extractToolCallRaw (Some resp)") auto
    then have "ExtractToolCall env (Some resp) = Inl e" by (rule ExtractToolCall_raw_error)
    from Run_extract_error [OF chat this] show ?thesis by blast
  qed
  have len: "Run env q k =
      ([], Inl ''failed to extract tool call: response was cut off (length limit exceeded)'')"
    if "FinishReason c = ''length''"
  proof -
    have "extractToolCallRaw (Some resp) = Inl ''response was cut off (length limit exceeded)''"
      using ch that by (simp add: extractToolCallRaw_def)
    then have "ExtractToolCall env (Some resp) = Inl ''response was cut off (length limit exceeded)''"
      by (rule ExtractToolCall_raw_error)
    from Run_extract_error [OF chat this] show ?thesis by simp
  qed
  have other: "\<exists>e. Run env q k = ([], Inl e)"
    if tc: "ToolCalls (Message c) = tc # tcs" and name: "tc_Name tc \<noteq> ToolName" for tc tcs
  proof (cases "ExtractToolCall env (Some resp)")
    case (Inl e)
    from Run_extract_error [OF chat this] show ?thesis by blast
  next
    case (Inr p)
    obtain n m where p: "p = (n, m)" by (cases p)
    from ExtractToolCall_Inr [OF Inr [unfolded p]] obtain a
      where "extractToolCallRaw (Some resp) = Inr (n, a)" by blast
    from extract_raw_Inr [OF this] ch tc have "n = tc_Name tc" by auto
    with name have "n \<noteq> ToolName" by simp
    from Run_wrong_tool [OF chat Inr [unfolded p] this] show ?thesis by blast
  qed
  have unexpected: "Run env q k = ([], Inl (''unexpected tool called: '' @ name))"
    if "extractToolCallRaw (Some resp) = Inr (name, arguments)"
       "json_Unmarshal env arguments = Inr m" "name \<noteq> ToolName" for name arguments m
    using Run_wrong_tool [OF chat ExtractToolCall_ok [OF that(1) that(2)] that(3)] .
  have invoked: "(FinishReason c = ''tool_calls'' \<or> FinishReason c = ''stop'') \<and>
            (\<exists>tc tcs. ToolCalls (Message c) = tc # tcs \<and> tc_Name tc = ToolName)"
    if "fst (Run env q k) \<noteq> []"
  proof -
    from Run_invoked_cases [OF that] chat obtain m
      where "ExtractToolCall env (Some resp) = Inr (ToolName, m)" by auto
    from ExtractToolCall_Inr [OF this] obtain a
      where "extractToolCallRaw (Some resp) = Inr (ToolName, a)" by blast
    from extract_raw_Inr [OF this] ch show ?thesis by auto
  qed
  from finish len other unexpected invoked show ?thesis by blast
qed

theorem Run_checks_finish_reason_and_tool_name_witness:
  "Run (sample_env best_first_docs (Some (text_response ''length'' ''I think'')))
       ''cheap hotel'' 2 =
     ([], Inl ''failed to extract tool call: response was cut off (length limit exceeded)'') \<and>
   Run (sample_env best_first_docs (Some (tool_call_response ''tool_calls'' ''drop_database'' args_query_k2)))
       ''cheap hotel'' 2 =
     ([], Inl ''unexpected tool called: drop_database'') \<and>
   fst (Run (sample_env best_first_docs (Some (tool_call_response ''tool_calls'' ToolName args_query_k2)))
       ''cheap hotel'' 2) = [(''hotel with a pool'', 2)] \<and>
   tc_Name (hd (ToolCalls (Message (hd (Choices (tool_call_response ''tool_calls'' ToolName args_query_k2)))))) =
     ToolName"
proof -
  let ?ra = "text_response ''length'' ''I think''"
  let ?rb = "tool_call_response ''tool_calls'' ''drop_database'' args_query_k2"
  let ?rc = "tool_call_response ''tool_calls'' ToolName args_query_k2"
  let ?c = "\<lambda>r. hd (Choices r)"
  have cha: "Choices ?ra = [?c ?ra]" and fa: "FinishReason (?c ?ra) = ''length''"
    by (simp_all add: text_response_def)
  have chb: "Choices ?rb = [?c ?rb]" and chc: "Choices ?rc = [?c ?rc]"
    by (simp_all add: tool_call_response_def)
  have a: "Run (sample_env best_first_docs (Some ?ra)) ''cheap hotel'' 2 =
     ([], Inl ''failed to extract tool call: response was cut off (length limit exceeded)'')"
    using Run_checks_finish_reason_and_tool_name [OF sample_chat cha] fa by blast
  have rawb: "extractToolCallRaw (Some ?rb) = Inr (''drop_database'', args_query_k2)"
    by (simp add: extractToolCallRaw_def tool_call_response_def)
  have unb: "json_Unmarshal (sample_env best_first_docs (Some ?rb)) args_query_k2 =
      Inr [''query'' \<mapsto> JString ''hotel with a pool'', ''nearestNeighbors'' \<mapsto> JNumber 2]"
    by (simp add: sample_env_def sample_Unmarshal_k2)
  have neq: "''drop_database'' \<noteq> ToolName" by (simp add: ToolName_def)
  have b: "Run (sample_env best_first_docs (Some ?rb)) ''cheap hotel'' 2 =
     ([], Inl ''unexpected tool called: drop_database'')"
    using Run_checks_finish_reason_and_tool_name [OF sample_chat chb] rawb unb neq by fastforce
  have c1: "fst (Run (sample_env best_first_docs (Some ?rc)) ''cheap hotel'' 2) = [(''hotel with a pool'', 2)]"
    by (rule sample_Run_calls_k2)
  then have ne: "fst (Run (sample_env best_first_docs (Some ?rc)) ''cheap hotel'' 2) \<noteq> []" by simp
  have "\<exists>tc tcs. ToolCalls (Message (?c ?rc)) = tc # tcs \<and> tc_Name tc = ToolName"
    using Run_checks_finish_reason_and_tool_name [OF sample_chat chc] ne by blast
  then have c2: "tc_Name (hd (ToolCalls (Message (?c ?rc)))) = ToolName" by auto
  from a b c1 c2 show ?thesis by blast
qed

subsection \<open>A model that answers in text\<close>

lemma extractPlannerToolOutput_no_tool_message:
  "\<not> list_ex is_tool_message msgs \<Longrightarrow> extractPlannerToolOutput stringify msgs = []"
proof -
  assume "\<not> list_ex is_tool_message msgs"
  then have "find is_tool_message msgs = None"
    by (simp add: find_None_iff list_ex_iff)
  then show ?thesis by (simp add: extractPlannerToolOutput_def)
qed

lemma text_only_history_no_tool: "\<not> list_ex is_tool_message text_only_history"
  by (simp add: text_only_history_def is_tool_message_def)

text \<open>
  Claim C1, as stated, fails in two places. In Go, a text-only answer whose finish reason
  is \<open>length\<close> is reported as cut off, and that error does not carry the text. In
  TypeScript, a history without a tool message makes the planner return the empty string,
  not an error.
\<close>

theorem text_only_response_counterexample:
  "Run (sample_env best_first_docs (Some (text_response ''length'' ''I would pick the Old'')))
       ''cheap hotel'' 5 =
     ([], Inl ''failed to extract tool call: response was cut off (length limit exceeded)'') \<and>
   \<not> sublist ''I would pick the Old''
         ''failed to extract tool call: response was cut off (length limit exceeded)'' \<and>
   runPlannerAgent sample_numToString (\<lambda>v. ''null'') (\<lambda>userMessage. Inr (Some text_only_history))
       ''cheap hotel'' 5 = Inr []"
proof -
  let ?r = "text_response ''length'' ''I would pick the Old''"
  have "extractToolCallRaw (Some ?r) = Inl ''response was cut off (length limit exceeded)''"
    by (simp add: extractToolCallRaw_def text_response_def)
  from Run_extract_error [OF sample_chat ExtractToolCall_raw_error [OF this]]
  have a: "Run (sample_env best_first_docs (Some ?r)) ''cheap hotel'' 5 =
     ([], Inl ''failed to extract tool call: response was cut off (length limit exceeded)'')"
    by simp
  have b: "\<not> sublist ''I would pick the Old''
         ''failed to extract tool call: response was cut off (length limit exceeded)''"
    by (simp add: sublist_Cons_right)
  have c: "runPlannerAgent sample_numToString (\<lambda>v. ''null'') (\<lambda>userMessage. Inr (Some text_only_history))
       ''cheap hotel'' 5 = Inr []"
    using extractPlannerToolOutput_no_tool_message [OF text_only_history_no_tool]
    by (simp add: runPlannerAgent_def)
  from a b c show ?thesis by blast
qed

text \<open>
  Claim C1, amended. In the Go agent, when the first choice of the model's answer has no
  tool call and a non-empty text, \<open>Run\<close> fails and calls no tool; if the finish reason is
  \<open>tool_calls\<close> or \<open>stop\<close> the error is the no-tool-call error, which ends with that
  text, and if it is \<open>length\<close> the error is the cut-off error. In the TypeScript agent,
  a message history with no tool message makes \<open>runPlannerAgent\<close> return the empty
  string.
\<close>

theorem Run_fails_when_model_answers_in_text:
  assumes chat: "ChatCompletionWithTools env (PlannerSystemPrompt env) (plannerUserMessage q k) [ToolName] = Inr (Some resp)"
      and ch: "Choices resp = c # cs"
      and none: "ToolCalls (Message c) = []"
      and nonempty: "Content (Message c) \<noteq> []"
      and ts: "\<not> list_ex is_tool_message msgs"
  shows "(\<exists>e. Run env q k = ([], Inl e)) \<and>
         (FinishReason c = ''tool_calls'' \<or> FinishReason c = ''stop'' \<longrightarrow>
            Run env q k =
              ([], Inl (''failed to extract tool call: no tool calls in response - model returned: '' @
                        Content (Message c)))) \<and>
         (FinishReason c = ''length'' \<longrightarrow>
            Run env q k =
              ([], Inl ''failed to extract tool call: response was cut off (length limit exceeded)'')) \<and>
         runPlannerAgent numToString stringify (\<lambda>userMessage. Inr (Some msgs)) q n = Inr []"
proof -
  have fails: "\<exists>e. Run env q k = ([], Inl e)"
  proof -
    from extract_raw_no_tool_calls [OF ch none] obtain e
      where "extractToolCallRaw (Some resp) = Inl e"
      by (cases "extractToolCallRaw (Some resp)") auto
    then have "ExtractToolCall env (Some resp) = Inl e" by (rule ExtractToolCall_raw_error)
    from Run_extract_error [OF chat this] show ?thesis by blast
  qed
  have told: "Run env q k =
      ([], Inl (''failed to extract tool call: no tool calls in response - model returned: '' @
                Content (Message c)))"
    if "FinishReason c = ''tool_calls'' \<or> FinishReason c = ''stop''"
    using Run_extract_error [OF chat ExtractToolCall_raw_error [OF extract_raw_text_only [OF ch that none nonempty]]]
    by simp
  have len: "Run env q k =
      ([], Inl ''failed to extract tool call: response was cut off (length limit exceeded)'')"
    if "FinishReason c = ''length''"
  proof -
    have "extractToolCallRaw (Some resp) = Inl ''response was cut off (length limit exceeded)''"
      using ch that by (simp add: extractToolCallRaw_def)
    from Run_extract_error [OF chat ExtractToolCall_raw_error [OF this]] show ?thesis by simp
  qed
  have tsr: "runPlannerAgent numToString stringify (\<lambda>userMessage. Inr (Some msgs)) q n = Inr []"
    using extractPlannerToolOutput_no_tool_message [OF ts]
    by (simp add: runPlannerAgent_def)
  from fails told len tsr show ?thesis by blast
qed

theorem Run_fails_when_model_answers_in_text_witness:
  "Run (sample_env best_first_docs (Some (text_response ''stop'' ''I would pick the Old Century Hotel.'')))
       ''cheap hotel'' 5 =
     ([], Inl ''failed to extract tool call: no tool calls in response - model returned: I would pick the Old Century Hotel.'') \<and>
   runPlannerAgent sample_numToString (\<lambda>v. ''null'') (\<lambda>userMessage. Inr (Some text_only_history))
       ''cheap hotel'' 5 = Inr []"
proof -
  let ?r = "text_response ''stop'' ''I would pick the Old Century Hotel.''"
  let ?c = "hd (Choices ?r)"
  have ch: "Choices ?r = [?c]" by (simp add: text_response_def)
  have none: "ToolCalls (Message ?c) = []" by (simp add: text_response_def)
  have nonempty: "Content (Message ?c) \<noteq> []" by (simp add: text_response_def)
  have fin: "FinishReason ?c = ''stop''" by (simp add: text_response_def)
  have cont: "Content (Message ?c) = ''I would pick the Old Century Hotel.''"
    by (simp add: text_response_def)
  let ?env = "sample_env best_first_docs (Some ?r)"
  have chat: "ChatCompletionWithTools ?env (PlannerSystemPrompt ?env)
                (plannerUserMessage ''cheap hotel'' 5) [ToolName] = Inr (Some ?r)"
    by (rule sample_chat)
  from Run_fails_when_model_answers_in_text [OF chat ch none nonempty text_only_history_no_tool,
      where numToString = sample_numToString and stringify = "\<lambda>v. ''null''" and n = 5]
    fin cont
  show ?thesis by simp
qed

subsection \<open>The neighbour count handed to the search tool\<close>

lemma parse_absent_or_zero:
  "m ''query'' = Some (JString query) \<Longrightarrow>
   m ''nearestNeighbors'' = None \<or> m ''nearestNeighbors'' = Some (JNumber 0) \<Longrightarrow>
   parseToolArgumentsFromMap m = Inr \<lparr>Query = query, NearestNeighbors = 0\<rparr>"
  by (auto simp: parseToolArgumentsFromMap_def int_of_float64_def)

text \<open>
  Claim C2, as stated, fails: the Go agent called with \<open>k = 0\<close> hands 0 to the search
  tool when the tool call has no \<open>nearestNeighbors\<close>; the TypeScript tool schema turns an
  absent \<open>nearestNeighbors\<close> into the constant 5, whatever the caller asked for, and
  passes a 0 through.
\<close>

theorem requested_k_counterexample:
  "fst (Run (sample_env best_first_docs (Some (tool_call_response ''tool_calls'' ToolName args_query_only)))
          ''cheap hotel'' 0) = [(''hotel with a pool'', 0)] \<and>
   map_sum (\<lambda>e. e) fst
     (invoke_search_tool sample_numToString (Some sample_context)
        [''query'' \<mapsto> JString ''hotel with a pool'']) = Inr 5 \<and>
   map_sum (\<lambda>e. e) fst
     (invoke_search_tool sample_numToString (Some sample_context)
        [''query'' \<mapsto> JString ''hotel with a pool'', ''nearestNeighbors'' \<mapsto> JNumber 0]) = Inr 0"
proof -
  let ?r = "tool_call_response ''tool_calls'' ToolName args_query_only"
  have p: "parseToolArgumentsFromMap [''query'' \<mapsto> JString ''hotel with a pool''] =
      Inr \<lparr>Query = ''hotel with a pool'', NearestNeighbors = 0\<rparr>"
    by (simp add: parseToolArgumentsFromMap_def)
  have a: "fst (Run (sample_env best_first_docs (Some ?r)) ''cheap hotel'' 0) = [(''hotel with a pool'', 0)]"
    using Run_executes [OF sample_chat sample_extract_call [OF sample_Unmarshal_query_only] p refl]
    by simp
  have b: "map_sum (\<lambda>e. e) fst
     (invoke_search_tool sample_numToString (Some sample_context)
        [''query'' \<mapsto> JString ''hotel with a pool'']) = Inr 5"
    by (simp add: invoke_search_tool_def tool_schema_def)
  have c: "map_sum (\<lambda>e. e) fst
     (invoke_search_tool sample_numToString (Some sample_context)
        [''query'' \<mapsto> JString ''hotel with a pool'', ''nearestNeighbors'' \<mapsto> JNumber 0]) = Inr 0"
    by (simp add: invoke_search_tool_def tool_schema_def)
  from a b c show ?thesis by blast
qed

text \<open>
  Claim C2, amended. In the Go agent, when the tool call for the search tool has a string
  \<open>query\<close> and its \<open>nearestNeighbors\<close> is absent or zero (or parses to 0 in any other
  way), \<open>Run\<close> calls the search tool once, with the caller's \<open>k\<close>; the count it hands
  over is never zero when the caller's \<open>k\<close> is not zero. In the TypeScript sample the
  tool runs with 5 when \<open>nearestNeighbors\<close> is absent and with 0 when it is 0.
\<close>

theorem Run_substitutes_requested_k:
  assumes chat: "ChatCompletionWithTools env (PlannerSystemPrompt env) (plannerUserMessage userQuery k) [ToolName] = Inr resp"
      and ex: "ExtractToolCall env resp = Inr (ToolName, m)"
      and qs: "m ''query'' = Some (JString query)"
  shows "(m ''nearestNeighbors'' = None \<or> m ''nearestNeighbors'' = Some (JNumber 0) \<longrightarrow>
            fst (Run env userQuery k) = [(query, k)]) \<and>
         (\<forall>args. parseToolArgumentsFromMap m = Inr args \<and> NearestNeighbors args = 0 \<longrightarrow>
            fst (Run env userQuery k) = [(Query args, k)]) \<and>
         (k \<noteq> 0 \<longrightarrow> 0 \<notin> snd ` set (fst (Run env userQuery k))) \<and>
         (m ''nearestNeighbors'' = None \<longrightarrow>
            invoke_search_tool numToString ctx m =
              Inr (5, getHotelsToMatchSearchQuery numToString ctx query 5)) \<and>
         (m ''nearestNeighbors'' = Some (JNumber 0) \<longrightarrow>
            invoke_search_tool numToString ctx m =
              Inr (0, getHotelsToMatchSearchQuery numToString ctx query 0))"
proof -
  have a: "fst (Run env userQuery k) = [(query, k)]"
    if "m ''nearestNeighbors'' = None \<or> m ''nearestNeighbors'' = Some (JNumber 0)"
    using Run_executes [OF chat ex parse_absent_or_zero [OF qs that] refl] by simp
  have b: "fst (Run env userQuery k) = [(Query args, k)]"
    if "parseToolArgumentsFromMap m = Inr args" "NearestNeighbors args = 0" for args
    using Run_executes [OF chat ex that(1) refl] that(2) by simp
  have c: "0 \<notin> snd ` set (fst (Run env userQuery k))" if "k \<noteq> 0"
  proof (cases "parseToolArgumentsFromMap m")
    case (Inl e)
    from Run_parse_error [OF chat ex this] show ?thesis by simp
  next
    case (Inr args)
    from Run_executes [OF chat ex this refl] that show ?thesis by simp
  qed
  have d: "invoke_search_tool numToString ctx m =
              Inr (5, getHotelsToMatchSearchQuery numToString ctx query 5)"
    if "m ''nearestNeighbors'' = None"
    using qs that by (simp add: invoke_search_tool_def tool_schema_def)
  have e: "invoke_search_tool numToString ctx m =
              Inr (0, getHotelsToMatchSearchQuery numToString ctx query 0)"
    if "m ''nearestNeighbors'' = Some (JNumber 0)"
    using qs that by (simp add: invoke_search_tool_def tool_schema_def)
  from a b c d e show ?thesis by blast
qed

theorem Run_substitutes_requested_k_witness:
  "fst (Run (sample_env best_first_docs (Some (tool_call_response ''tool_calls'' ToolName args_query_k0)))
          ''cheap hotel'' 3) = [(''hotel with a pool'', 3)] \<and>
   0 \<notin> snd ` set (fst (Run (sample_env best_first_docs
                              (Some (tool_call_response ''tool_calls'' ToolName args_query_k0)))
                         ''cheap hotel'' 3)) \<and>
   map_sum (\<lambda>e. e) fst
     (invoke_search_tool sample_numToString (Some sample_context)
        [''query'' \<mapsto> JString ''hotel with a pool'', ''nearestNeighbors'' \<mapsto> JNumber 0]) = Inr 0"
proof -
  let ?r = "tool_call_response ''tool_calls'' ToolName args_query_k0"
  let ?env = "sample_env best_first_docs (Some ?r)"
  let ?m = "[''query'' \<mapsto> JString ''hotel with a pool'', ''nearestNeighbors'' \<mapsto> JNumber 0]"
  have chat: "ChatCompletionWithTools ?env (PlannerSystemPrompt ?env)
                (plannerUserMessage ''cheap hotel'' 3) [ToolName] = Inr (Some ?r)"
    by (rule sample_chat)
  have ex: "ExtractToolCall ?env (Some ?r) = Inr (ToolName, ?m)"
    by (rule sample_extract_call [OF sample_Unmarshal_k0])
  have qs: "?m ''query'' = Some (JString ''hotel with a pool'')" by simp
  have z: "?m ''nearestNeighbors'' = Some (JNumber 0)" by simp
  have k: "(3::int) \<noteq> 0" by simp
  note inst = Run_substitutes_requested_k [OF chat ex qs,
      where numToString = sample_numToString and ctx = "Some sample_context"]
  from inst z have a: "fst (Run ?env ''cheap hotel'' 3) = [(''hotel with a pool'', 3)]"
    by blast
  from inst k have b: "0 \<notin> snd ` set (fst (Run ?env ''cheap hotel'' 3))"
    by blast
  from inst z have "invoke_search_tool sample_numToString (Some sample_context) ?m =
      Inr (0, getHotelsToMatchSearchQuery sample_numToString (Some sample_context)
                ''hotel with a pool'' 0)"
    by blast
  then have c: "map_sum (\<lambda>e. e) fst
      (invoke_search_tool sample_numToString (Some sample_context) ?m) = Inr 0"
    by (simp only: map_sum.simps fst_conv)
  from a b c show ?thesis by blast
qed

subsection \<open>Failures inside the search tool\<close>

lemma Execute_embedding_error:
  "GenerateEmbedding env query = Inl e \<Longrightarrow>
   Execute env query k = Inl (''failed to generate embedding: '' @ e)"
  by (simp add: Execute_def)

lemma Execute_search_error:
  "GenerateEmbedding env query = Inr v \<Longrightarrow>
   VectorSearch (Aggregate env) (EmbeddedField env) v k = Inl e \<Longrightarrow>
   Execute env query k = Inl (''vector search failed: '' @ e)"
  by (simp add: Execute_def)

lemma Execute_ok:
  "GenerateEmbedding env query = Inr v \<Longrightarrow>
   VectorSearch (Aggregate env) (EmbeddedField env) v k = Inr results \<Longrightarrow>
   Execute env query k =
     Inr (Join (map (FormatHotelForSynthesizer (time_Format env)) results) [CHR 0x0A, CHR 0x0A])"
  by (simp add: Execute_def)

lemma no_embedding_GenerateEmbedding:
  "GenerateEmbedding (no_embedding_env resp) query =
     Inl ''failed to generate embedding: 401 Unauthorized''"
  by (simp add: GenerateEmbedding_def no_embedding_env_def)

lemma no_embedding_chat:
  "ChatCompletionWithTools (no_embedding_env (Some r)) p u [ToolName] = Inr (Some r)"
  by (simp add: ChatCompletionWithTools_def no_embedding_env_def sample_env_def)

lemma no_embedding_extract_call:
  "sample_Unmarshal arguments = Inr m \<Longrightarrow>
   ExtractToolCall (no_embedding_env resp) (Some (tool_call_response ''tool_calls'' name arguments)) =
     Inr (name, m)"
  by (simp add: ExtractToolCall_def extractToolCallRaw_def tool_call_response_def
      no_embedding_env_def sample_env_def)

lemma parse_k2:
  "parseToolArgumentsFromMap
     [''query'' \<mapsto> JString ''hotel with a pool'', ''nearestNeighbors'' \<mapsto> JNumber 2] =
   Inr \<lparr>Query = ''hotel with a pool'', NearestNeighbors = 2\<rparr>"
  by (simp add: parseToolArgumentsFromMap_def int_of_float64_2)

text \<open>
  Claim C3, as stated, fails for the Go search tool: when the embedding request fails,
  \<open>Execute\<close> returns an error, not a string, and \<open>Run\<close> hands that error on to its
  caller.
\<close>

theorem search_tool_error_counterexample:
  "Execute (no_embedding_env None) ''hotel with a pool'' 2 =
     Inl ''failed to generate embedding: failed to generate embedding: 401 Unauthorized'' \<and>
   Run (no_embedding_env (Some (tool_call_response ''tool_calls'' ToolName args_query_k2)))
       ''cheap hotel'' 5 =
     ([(''hotel with a pool'', 2)],
      Inl ''search tool execution failed: failed to generate embedding: failed to generate embedding: 401 Unauthorized'')"
proof -
  have a: "Execute (no_embedding_env resp) ''hotel with a pool'' 2 =
     Inl ''failed to generate embedding: failed to generate embedding: 401 Unauthorized''" for resp
    using Execute_embedding_error [OF no_embedding_GenerateEmbedding] by simp
  have b: "Run (no_embedding_env (Some (tool_call_response ''tool_calls'' ToolName args_query_k2)))
       ''cheap hotel'' 5 =
     ([(''hotel with a pool'', 2)],
      Inl ''search tool execution failed: failed to generate embedding: failed to generate embedding: 401 Unauthorized'')"
    using Run_executes [OF no_embedding_chat no_embedding_extract_call [OF sample_Unmarshal_k2] parse_k2 refl]
    by (simp add: a)
  from a b show ?thesis by blast
qed

text \<open>
  Claim C3, amended. The TypeScript search tool returns the fixed text
  \<open>Error occurred while searching for hotels.\<close> as its ordinary result whenever a step
  inside its \<open>try\<close> block throws: the embedding request, the vector search, or the
  formatting of a result. The Go search tool returns an error instead when the embedding
  request or the vector search fails, and \<open>Run\<close> returns that error to its caller, wrapped
  as \<open>search tool execution failed\<close>.
\<close>

theorem search_tool_failure_handling:
  "(search_tool_try numToString ctx query n = Inl e \<longrightarrow>
      getHotelsToMatchSearchQuery numToString ctx query n =
        ''Error occurred while searching for hotels.'') \<and>
   (embedQuery c query = Inl e \<longrightarrow>
      getHotelsToMatchSearchQuery numToString (Some c) query n =
        ''Error occurred while searching for hotels.'') \<and>
   (embedQuery c query = Inr v \<and> similaritySearchVectorWithScore c v n = Inl e \<longrightarrow>
      getHotelsToMatchSearchQuery numToString (Some c) query n =
        ''Error occurred while searching for hotels.'') \<and>
   (embedQuery c query = Inr v \<and> similaritySearchVectorWithScore c v n = Inr results \<and>
    format_results numToString results = Inl e \<longrightarrow>
      getHotelsToMatchSearchQuery numToString (Some c) query n =
        ''Error occurred while searching for hotels.'') \<and>
   (GenerateEmbedding env query = Inl e \<longrightarrow>
      Execute env query k = Inl (''failed to generate embedding: '' @ e)) \<and>
   (GenerateEmbedding env query = Inr v \<and>
    VectorSearch (Aggregate env) (EmbeddedField env) v k = Inl e \<longrightarrow>
      Execute env query k = Inl (''vector search failed: '' @ e)) \<and>
   (ChatCompletionWithTools env (PlannerSystemPrompt env) (plannerUserMessage userQuery k0) [ToolName] = Inr resp \<and>
    ExtractToolCall env resp = Inr (ToolName, m) \<and> parseToolArgumentsFromMap m = Inr args \<and>
    Execute env (Query args) (if NearestNeighbors args = 0 then k0 else NearestNeighbors args) = Inl e \<longrightarrow>
      snd (Run env userQuery k0) = Inl (''search tool execution failed: '' @ e))"
proof -
  have run: "snd (Run env userQuery k0) = Inl (''search tool execution failed: '' @ e)"
    if "ChatCompletionWithTools env (PlannerSystemPrompt env) (plannerUserMessage userQuery k0) [ToolName] = Inr resp"
       "ExtractToolCall env resp = Inr (ToolName, m)" "parseToolArgumentsFromMap m = Inr args"
       "Execute env (Query args) (if NearestNeighbors args = 0 then k0 else NearestNeighbors args) = Inl e"
    using Run_executes [OF that(1) that(2) that(3) refl] that(4) by simp
  show ?thesis
    using run
    by (auto simp: getHotelsToMatchSearchQuery_def search_tool_try_def Execute_def)
qed

theorem search_tool_failure_handling_witness:
  "getHotelsToMatchSearchQuery sample_numToString None ''hotel with a pool'' 2 =
     ''Error occurred while searching for hotels.'' \<and>
   getHotelsToMatchSearchQuery sample_numToString (Some no_embedding_context) ''hotel with a pool'' 2 =
     ''Error occurred while searching for hotels.'' \<and>
   getHotelsToMatchSearchQuery sample_numToString (Some no_metadata_context) ''hotel with a pool'' 2 =
     ''Error occurred while searching for hotels.'' \<and>
   Execute (no_embedding_env None) ''hotel with a pool'' 2 =
     Inl ''failed to generate embedding: failed to generate embedding: 401 Unauthorized'' \<and>
   snd (Run (no_embedding_env (Some (tool_call_response ''tool_calls'' ToolName args_query_k2)))
          ''cheap hotel'' 5) =
     Inl ''search tool execution failed: failed to generate embedding: failed to generate embedding: 401 Unauthorized''"
proof -
  let ?n = sample_numToString
  have t: "search_tool_try ?n None ''hotel with a pool'' 2 =
      Inl ''TypeError: Cannot read properties of undefined''"
    by (simp add: search_tool_try_def)
  have a: "getHotelsToMatchSearchQuery ?n None ''hotel with a pool'' 2 =
     ''Error occurred while searching for hotels.''"
    using search_tool_failure_handling
      [where numToString = ?n and ctx = None and query = "''hotel with a pool''" and n = 2
         and e = "''TypeError: Cannot read properties of undefined''"] t
    by blast
  have e: "embedQuery no_embedding_context ''hotel with a pool'' = Inl ''401 Unauthorized''"
    by (simp add: no_embedding_context_def)
  have b: "getHotelsToMatchSearchQuery ?n (Some no_embedding_context) ''hotel with a pool'' 2 =
     ''Error occurred while searching for hotels.''"
    using search_tool_failure_handling
      [where numToString = ?n and c = no_embedding_context and query = "''hotel with a pool''"
         and n = 2 and e = "''401 Unauthorized''"] e
    by blast
  have m1: "embedQuery no_metadata_context ''hotel with a pool'' = Inr [1 / 2, 1 / 4]"
    by (simp add: no_metadata_context_def sample_context_def)
  have m2: "similaritySearchVectorWithScore no_metadata_context [1 / 2, 1 / 4] 2 =
      Inr [(None, Some (1 / 2))]"
    by (simp add: no_metadata_context_def)
  have m3: "format_results ?n [(None, Some (1 / 2))] =
      Inl ''TypeError: Cannot read properties of undefined''"
    by simp
  have c: "getHotelsToMatchSearchQuery ?n (Some no_metadata_context) ''hotel with a pool'' 2 =
     ''Error occurred while searching for hotels.''"
    using search_tool_failure_handling
      [where numToString = ?n and c = no_metadata_context and query = "''hotel with a pool''"
         and n = 2 and v = "[1 / 2, 1 / 4]" and results = "[(None, Some (1 / 2))]"
         and e = "''TypeError: Cannot read properties of undefined''"] m1 m2 m3
    by blast
  have g: "GenerateEmbedding (no_embedding_env None) ''hotel with a pool'' =
      Inl ''failed to generate embedding: 401 Unauthorized''"
    by (rule no_embedding_GenerateEmbedding)
  have d: "Execute (no_embedding_env None) ''hotel with a pool'' 2 =
     Inl ''failed to generate embedding: failed to generate embedding: 401 Unauthorized''"
    using search_tool_failure_handling
      [where env = "no_embedding_env None" and query = "''hotel with a pool''" and k = 2
         and e = "''failed to generate embedding: 401 Unauthorized''"] g
    by simp
  let ?r = "tool_call_response ''tool_calls'' ToolName args_query_k2"
  let ?env = "no_embedding_env (Some ?r)"
  have r1: "ChatCompletionWithTools ?env (PlannerSystemPrompt ?env)
              (plannerUserMessage ''cheap hotel'' 5) [ToolName] = Inr (Some ?r)"
    by (rule no_embedding_chat)
  have r2: "ExtractToolCall ?env (Some ?r) =
      Inr (ToolName, [''query'' \<mapsto> JString ''hotel with a pool'', ''nearestNeighbors'' \<mapsto> JNumber 2])"
    by (rule no_embedding_extract_call [OF sample_Unmarshal_k2])
  have r3: "Execute ?env (Query \<lparr>Query = ''hotel with a pool'', NearestNeighbors = 2\<rparr>)
      (if NearestNeighbors \<lparr>Query = ''hotel with a pool'', NearestNeighbors = 2\<rparr> = 0 then 5
       else NearestNeighbors \<lparr>Query = ''hotel with a pool'', NearestNeighbors = 2\<rparr>) =
      Inl ''failed to generate embedding: failed to generate embedding: 401 Unauthorized''"
    using Execute_embedding_error [OF no_embedding_GenerateEmbedding] by simp
  have f: "snd (Run ?env ''cheap hotel'' 5) =
      Inl ''search tool execution failed: failed to generate embedding: failed to generate embedding: 401 Unauthorized''"
    using search_tool_failure_handling
      [where env = ?env and userQuery = "''cheap hotel''" and ?k0.0 = 5 and resp = "Some ?r"
         and m = "[''query'' \<mapsto> JString ''hotel with a pool'', ''nearestNeighbors'' \<mapsto> JNumber 2]"
         and args = "\<lparr>Query = ''hotel with a pool'', NearestNeighbors = 2\<rparr>"
         and e = "''failed to generate embedding: failed to generate embedding: 401 Unauthorized''"]
      r1 r2 parse_k2 r3
    by simp
  from a b c d f show ?thesis by blast
qed

subsection \<open>Bulk insert\<close>

lemma Insert_bulk_write_failed:
  assumes "hotels \<noteq> []" and "InsertMany hotels False db = (BulkWriteFailed ids bulkErr, db')"
  shows "InsertHotelsWithEmbeddings InsertMany Debug hotels db =
     (let failed = int (length (WriteErrors bulkErr));
          inserted = int (length hotels) - failed;
          partialLine = (if Debug
                         then [''[vectorstore] Partial insert: '' @ show_int inserted @
                               '' inserted, '' @ show_int failed @ '' failed'' @ newline]
                         else [])
      in if inserted = 0
         then (Some (''failed to insert any documents: '' @ bwe_Error bulkErr), partialLine, db')
         else (None,
               partialLine @
               [''[vectorstore] Warning: partial insert completed with '' @ show_int failed @
                '' errors'' @ newline] @
               (if Debug
                then [''[vectorstore] Inserted '' @ show_int (int (length ids)) @ '' documents'' @ newline]
                else []),
               db'))"
  using assms by (simp add: InsertHotelsWithEmbeddings_def Let_def)

lemma sample_InsertMany_partial:
  "sample_InsertMany [hotel_a, hotel_b] False ([''1''], 0) =
     (BulkWriteFailed [''2'']
        \<lparr>WriteErrors = [\<lparr>we_Index = 0, we_Code = 11000, we_Message = ''E11000 duplicate key''\<rparr>],
         bwe_Error = ''bulk write exception''\<rparr>,
      ([''1'', ''2''], 1))"
  by (simp add: sample_InsertMany_def hotel_a_def hotel_b_def)

lemma sample_InsertMany_none:
  "sample_InsertMany [hotel_a] False ([''1''], 0) =
     (BulkWriteFailed []
        \<lparr>WriteErrors = [\<lparr>we_Index = 0, we_Code = 11000, we_Message = ''E11000 duplicate key''\<rparr>],
         bwe_Error = ''bulk write exception''\<rparr>,
      ([''1''], 1))"
  by (simp add: sample_InsertMany_def hotel_a_def)

lemma show_int_small: "show_int 0 = ''0''" "show_int 1 = ''1''" "show_int 2 = ''2''"
  by (simp_all add: show_int_def show_nat.simps digit_char_def)

text \<open>
  Claim C5. When \<open>InsertMany\<close> on \<open>N > 0\<close> documents reports a bulk write exception
  with \<open>failed\<close> write errors, the function works with \<open>inserted = N - failed\<close>, so that
  \<open>inserted + failed = N\<close>; it returns no error exactly when \<open>inserted\<close> is not zero, in
  particular whenever at least one document was inserted, and then prints the warning
  with the number of errors; it returns the error \<open>failed to insert any documents\<close> when
  \<open>inserted\<close> is zero; with \<open>Debug\<close> on, the first line it prints gives both counts.
\<close>

theorem partial_bulk_insert:
  assumes ne: "hotels \<noteq> []"
      and bw: "InsertMany hotels False db = (BulkWriteFailed ids bulkErr, db')"
      and N: "N = int (length hotels)"
      and failed: "failed = int (length (WriteErrors bulkErr))"
      and inserted: "inserted = N - failed"
      and r: "r = InsertHotelsWithEmbeddings InsertMany Debug hotels db"
  shows "inserted + failed = N \<and>
         (fst r = None \<longleftrightarrow> inserted \<noteq> 0) \<and>
         (1 \<le> inserted \<longrightarrow>
            fst r = None \<and>
            (''[vectorstore] Warning: partial insert completed with '' @ show_int failed @
             '' errors'' @ newline) \<in> set (fst (snd r))) \<and>
         (inserted = 0 \<longrightarrow>
            fst r = Some (''failed to insert any documents: '' @ bwe_Error bulkErr)) \<and>
         (Debug \<longrightarrow>
            hd (fst (snd r)) =
              ''[vectorstore] Partial insert: '' @ show_int inserted @ '' inserted, '' @
              show_int failed @ '' failed'' @ newline) \<and>
         snd (snd r) = db'"
  using Insert_bulk_write_failed [where InsertMany = InsertMany and Debug = Debug, OF ne bw] N failed inserted r
  by (auto simp: Let_def)

theorem partial_bulk_insert_witness:
  "fst (InsertHotelsWithEmbeddings sample_InsertMany True [hotel_a, hotel_b] ([''1''], 0)) = None \<and>
   ''[vectorstore] Warning: partial insert completed with 1 errors'' @ newline
     \<in> set (fst (snd (InsertHotelsWithEmbeddings sample_InsertMany True [hotel_a, hotel_b] ([''1''], 0)))) \<and>
   hd (fst (snd (InsertHotelsWithEmbeddings sample_InsertMany True [hotel_a, hotel_b] ([''1''], 0)))) =
     ''[vectorstore] Partial insert: 1 inserted, 1 failed'' @ newline \<and>
   snd (snd (InsertHotelsWithEmbeddings sample_InsertMany True [hotel_a, hotel_b] ([''1''], 0))) =
     ([''1'', ''2''], 1) \<and>
   fst (InsertHotelsWithEmbeddings sample_InsertMany True [hotel_a] ([''1''], 0)) =
     Some ''failed to insert any documents: bulk write exception''"
proof -
  let ?e = "\<lparr>WriteErrors = [\<lparr>we_Index = 0, we_Code = 11000, we_Message = ''E11000 duplicate key''\<rparr>],
             bwe_Error = ''bulk write exception''\<rparr>"
  have ne2: "[hotel_a, hotel_b] \<noteq> []" and ne1: "[hotel_a] \<noteq> []" by simp_all
  note two = partial_bulk_insert [where InsertMany = sample_InsertMany and Debug = True,
      OF ne2 sample_InsertMany_partial refl refl refl refl]
  note one = partial_bulk_insert [where InsertMany = sample_InsertMany and Debug = True,
      OF ne1 sample_InsertMany_none refl refl refl refl]
  from two have a: "fst (InsertHotelsWithEmbeddings sample_InsertMany True [hotel_a, hotel_b] ([''1''], 0)) = None"
    by simp
  from two have b: "''[vectorstore] Warning: partial insert completed with 1 errors'' @ newline
     \<in> set (fst (snd (InsertHotelsWithEmbeddings sample_InsertMany True [hotel_a, hotel_b] ([''1''], 0))))"
    by (simp add: show_int_small)
  from two have c: "hd (fst (snd (InsertHotelsWithEmbeddings sample_InsertMany True [hotel_a, hotel_b] ([''1''], 0)))) =
     ''[vectorstore] Partial insert: 1 inserted, 1 failed'' @ newline"
    by (simp add: show_int_small)
  from two have d: "snd (snd (InsertHotelsWithEmbeddings sample_InsertMany True [hotel_a, hotel_b] ([''1''], 0))) =
     ([''1'', ''2''], 1)"
    by simp
  from one have e: "fst (InsertHotelsWithEmbeddings sample_InsertMany True [hotel_a] ([''1''], 0)) =
     Some ''failed to insert any documents: bulk write exception''"
    by simp
  from a b c d e show ?thesis by blast
qed

text \<open>
  Claim C8. For the empty list the function returns \<open>nil\<close> at once: it prints nothing,
  and the collection is the one it was given, whatever \<open>InsertMany\<close> would do; with the
  collection that counts its \<open>InsertMany\<close> calls, the count is unchanged.
\<close>

theorem empty_bulk_insert_writes_nothing:
  "InsertHotelsWithEmbeddings InsertMany Debug [] db = (None, [], db) \<and>
   InsertHotelsWithEmbeddings sample_InsertMany Debug [] (held, calls) = (None, [], (held, calls))"
  by (simp add: InsertHotelsWithEmbeddings_def)

subsection \<open>Vector search\<close>

lemma decode_loop_all_decode:
  "decode_loop (map (\<lambda>r. Decodes (Score r) (Hotel r)) new) acc = Inr (acc @ new)"
  by (induction new arbitrary: acc) auto

lemma decode_loop_Inr:
  "decode_loop ds acc = Inr rs \<Longrightarrow>
   \<exists>new. rs = acc @ new \<and> ds = map (\<lambda>r. Decodes (Score r) (Hotel r)) new"
proof (induction ds acc rule: decode_loop.induct)
  case (1 results)
  then show ?case by simp
next
  case (2 e rest results)
  then show ?case by simp
next
  case (3 score document rest results)
  from 3 obtain new where rs: "rs = (results @ [\<lparr>Hotel = document, Score = score\<rparr>]) @ new"
    and rest: "rest = map (\<lambda>r. Decodes (Score r) (Hotel r)) new"
    by auto
  show ?case
    by (rule exI [of _ "\<lparr>Hotel = document, Score = score\<rparr> # new"]) (simp add: rs rest)
qed

lemma sample_VectorSearch_best_last:
  "VectorSearch (Aggregate (sample_env best_last_docs resp)) field v 2 =
     Inr [\<lparr>Hotel = hotel_b, Score = 1 / 10\<rparr>, \<lparr>Hotel = hotel_a, Score = 9 / 10\<rparr>]"
  by (simp add: VectorSearch_def sample_env_def best_last_docs_def)

lemma sample_VectorSearch_best_first:
  "VectorSearch (Aggregate (sample_env best_first_docs resp)) field v 2 =
     Inr [\<lparr>Hotel = hotel_a, Score = 9 / 10\<rparr>, \<lparr>Hotel = hotel_b, Score = 1 / 10\<rparr>]"
  by (simp add: VectorSearch_def sample_env_def best_first_docs_def)

text \<open>
  Claim C6, as stated, fails: the gateway does not put the results in order. A collection
  that answers worst match first is returned worst match first, which is not best first
  for cosine or inner product; a collection that answers with the larger score first is
  returned so, which is not best first for L2.
\<close>

theorem VectorSearch_order_counterexample:
  "VectorSearch (Aggregate (sample_env best_last_docs None)) ''DescriptionVector'' [1 / 2, 1 / 4] 2 =
     Inr [\<lparr>Hotel = hotel_b, Score = 1 / 10\<rparr>, \<lparr>Hotel = hotel_a, Score = 9 / 10\<rparr>] \<and>
   \<not> spec_best_first COS [\<lparr>Hotel = hotel_b, Score = 1 / 10\<rparr>, \<lparr>Hotel = hotel_a, Score = 9 / 10\<rparr>] \<and>
   \<not> spec_best_first IP [\<lparr>Hotel = hotel_b, Score = 1 / 10\<rparr>, \<lparr>Hotel = hotel_a, Score = 9 / 10\<rparr>] \<and>
   VectorSearch (Aggregate (sample_env best_first_docs None)) ''DescriptionVector'' [1 / 2, 1 / 4] 2 =
     Inr [\<lparr>Hotel = hotel_a, Score = 9 / 10\<rparr>, \<lparr>Hotel = hotel_b, Score = 1 / 10\<rparr>] \<and>
   \<not> spec_best_first L2 [\<lparr>Hotel = hotel_a, Score = 9 / 10\<rparr>, \<lparr>Hotel = hotel_b, Score = 1 / 10\<rparr>]"
  by (simp add: sample_VectorSearch_best_last sample_VectorSearch_best_first
      spec_best_first_def spec_at_least_as_good_def)

text \<open>
  Claim C6, amended. \<open>VectorSearch\<close> sends the query vector, the vector field and \<open>k\<close> to
  the collection and returns exactly the documents that the collection's cursor yields,
  in the cursor's order, each with the score the collection reported: it succeeds with a
  list of results if and only if the aggregate call succeeded, the cursor reported no
  error, and the cursor's documents are those results in that order. The number of
  results and their order are the collection's.
\<close>

theorem VectorSearch_returns_cursor_order:
  "VectorSearch aggregate field queryVector k = Inr results \<longleftrightarrow>
     (\<exists>cur. aggregate \<lparr>p_vector = queryVector, p_path = field, p_k = k\<rparr> = Inr cur \<and>
            cursor_Err cur = None \<and>
            docs cur = map (\<lambda>r. Decodes (Score r) (Hotel r)) results)"
proof
  assume vs: "VectorSearch aggregate field queryVector k = Inr results"
  then obtain cur where agg: "aggregate \<lparr>p_vector = queryVector, p_path = field, p_k = k\<rparr> = Inr cur"
    by (auto simp: VectorSearch_def split: sum.splits)
  with vs have dl: "decode_loop (docs cur) [] = Inr results" and ce: "cursor_Err cur = None"
    by (auto simp: VectorSearch_def split: sum.splits option.splits)
  from decode_loop_Inr [OF dl] have "docs cur = map (\<lambda>r. Decodes (Score r) (Hotel r)) results"
    by simp
  with agg ce show "\<exists>cur. aggregate \<lparr>p_vector = queryVector, p_path = field, p_k = k\<rparr> = Inr cur \<and>
            cursor_Err cur = None \<and> docs cur = map (\<lambda>r. Decodes (Score r) (Hotel r)) results"
    by blast
next
  assume "\<exists>cur. aggregate \<lparr>p_vector = queryVector, p_path = field, p_k = k\<rparr> = Inr cur \<and>
            cursor_Err cur = None \<and> docs cur = map (\<lambda>r. Decodes (Score r) (Hotel r)) results"
  then obtain cur where "aggregate \<lparr>p_vector = queryVector, p_path = field, p_k = k\<rparr> = Inr cur"
    "cursor_Err cur = None" "docs cur = map (\<lambda>r. Decodes (Score r) (Hotel r)) results"
    by blast
  then show "VectorSearch aggregate field queryVector k = Inr results"
    using decode_loop_all_decode [of results "[]"]
    by (simp add: VectorSearch_def)
qed

subsection \<open>Digits and decimals\<close>

lemma digit_char_is_digit: "d < 10 \<Longrightarrow> is_digit (digit_char d)"
proof -
  assume "d < 10"
  then have "d = 0 \<or> d = 1 \<or> d = 2 \<or> d = 3 \<or> d = 4 \<or> d = 5 \<or> d = 6 \<or> d = 7 \<or> d = 8 \<or> d = 9"
    by arith
  then show ?thesis
    by (auto simp: digit_char_def is_digit_def)
qed

lemma show_nat_digits: "list_all is_digit (show_nat n)"
proof (induction n rule: show_nat.induct)
  case (1 n)
  show ?case
  proof (cases "n < 10")
    case True
    then show ?thesis by (subst show_nat.simps) (simp add: digit_char_is_digit)
  next
    case False
    with 1 show ?thesis by (subst show_nat.simps) (simp add: digit_char_is_digit)
  qed
qed

lemma show_nat_nonempty: "show_nat n \<noteq> []"
  by (subst show_nat.simps) simp

lemma show_nat_length: "0 < p \<Longrightarrow> n < 10 ^ p \<Longrightarrow> length (show_nat n) \<le> p"
proof (induction p arbitrary: n)
  case 0
  then show ?case by simp
next
  case (Suc p)
  show ?case
  proof (cases "n < 10")
    case True
    then show ?thesis by (subst show_nat.simps) simp
  next
    case False
    with Suc.prems have p: "0 < p" by (cases p) auto
    from Suc.prems have "n div 10 < 10 ^ p" by (simp add: less_mult_imp_div_less mult.commute)
    from Suc.IH [OF p this] False show ?thesis by (subst show_nat.simps) simp
  qed
qed

lemma length_pad_zeros: "length s \<le> w \<Longrightarrow> length (pad_zeros w s) = w"
  by (simp add: pad_zeros_def)

lemma replicate_zeros_digits: "list_all is_digit (replicate k (CHR ''0''))"
proof -
  have "is_digit (CHR ''0'')" by (simp add: is_digit_def)
  then show ?thesis by (induction k) simp_all
qed

lemma pad_zeros_digits: "list_all is_digit s \<Longrightarrow> list_all is_digit (pad_zeros w s)"
  by (simp add: pad_zeros_def replicate_zeros_digits)

lemma six_decimals_shape:
  assumes sg: "sg = [] \<or> sg = ''-''"
      and whole: "whole \<noteq> []" "list_all is_digit whole"
      and fr: "length fr = 6" "list_all is_digit fr"
  shows "six_decimals (sg @ whole @ ''.'' @ fr)"
proof -
  have nd: "\<not> is_digit (CHR ''.'')" "\<not> is_digit (CHR ''-'')" by (simp_all add: is_digit_def)
  from whole obtain w ws where w: "whole = w # ws" by (cases whole) auto
  with whole have wd: "is_digit w" by simp
  with nd have wm: "w \<noteq> CHR ''-''" by auto
  have tw: "takeWhile is_digit (whole @ ''.'' @ fr) = whole"
    using whole nd by (simp add: list_all_iff takeWhile_append2)
  have dw: "dropWhile is_digit (whole @ ''.'' @ fr) = ''.'' @ fr"
    using whole nd by (simp add: list_all_iff dropWhile_append2)
  have t: "(if take 1 (sg @ whole @ ''.'' @ fr) = ''-'' then drop 1 (sg @ whole @ ''.'' @ fr)
           else sg @ whole @ ''.'' @ fr) = whole @ ''.'' @ fr"
    using sg w wm by auto
  show ?thesis
    unfolding six_decimals_def Let_def t tw dw using whole fr by simp
qed

lemma fmt_f_six_decimals: "six_decimals (fmt_f 6 x)"
proof -
  define n where "n = round_half_even (\<bar>x\<bar> * 10 ^ 6)"
  define whole where "whole = show_nat (n div 10 ^ 6)"
  define fr where "fr = pad_zeros 6 (show_nat (n mod 10 ^ 6))"
  have "length (show_nat (n mod 10 ^ 6)) \<le> 6"
    by (rule show_nat_length) simp_all
  then have len: "length fr = 6"
    unfolding fr_def by (rule length_pad_zeros)
  have frd: "list_all is_digit fr"
    unfolding fr_def by (rule pad_zeros_digits) (rule show_nat_digits)
  have wd: "whole \<noteq> []" "list_all is_digit whole"
    unfolding whole_def by (rule show_nat_nonempty, rule show_nat_digits)
  have "six_decimals ((if x < 0 then ''-'' else '''') @ whole @ ''.'' @ fr)"
    using wd len frd by (intro six_decimals_shape) simp_all
  then show ?thesis by (simp add: fmt_f_def n_def Let_def whole_def fr_def)
qed

lemma toFixed_six_decimals:
  assumes "\<bar>x\<bar> < 10 ^ 21"
  shows "six_decimals (toFixed numToString 6 x)"
proof -
  define n where "n = nat \<lfloor>\<bar>x\<bar> * 10 ^ 6 + 1 / 2\<rfloor>"
  define m where "m = (if n = 0 then ''0'' else show_nat n)"
  define z where "z = (if length m \<le> 6 then replicate (6 + 1 - length m) (CHR ''0'') @ m else m)"
  have m0: "m = show_nat n"
    by (simp add: m_def show_nat.simps [of 0] digit_char_def)
  have zd: "list_all is_digit z"
    by (simp add: z_def m0 show_nat_digits replicate_zeros_digits del: replicate.simps)
  have zl: "7 \<le> length z" by (simp add: z_def)
  have "six_decimals ((if x < 0 then ''-'' else '''') @ take (length z - 6) z @ ''.'' @ drop (length z - 6) z)"
  proof (rule six_decimals_shape)
    show "take (length z - 6) z \<noteq> []" using zl by auto
    show "list_all is_digit (take (length z - 6) z)"
      using zd by (auto simp: list_all_iff dest: in_set_takeD)
    show "length (drop (length z - 6) z) = 6" using zl by simp
    show "list_all is_digit (drop (length z - 6) z)"
      using zd by (auto simp: list_all_iff dest: in_set_dropD)
  qed simp
  moreover have "toFixed numToString 6 x =
      (if x < 0 then ''-'' else '''') @ take (length z - 6) z @ ''.'' @ drop (length z - 6) z"
    using assms by (simp add: toFixed_def Let_def z_def m_def n_def)
  ultimately show ?thesis by simp
qed

lemma replicate_six_zeros: "replicate 6 (CHR ''0'') = ''000000''"
  by (simp add: numeral_eq_Suc)

lemma toFixed_zero: "toFixed numToString 6 0 = ''0.000000''"
proof -
  have "length ''0'' \<le> (6::nat)" "(6::nat) + 1 - length ''0'' = 6" by simp_all
  then show ?thesis
    by (simp add: toFixed_def Let_def replicate_six_zeros del: replicate.simps)
qed

subsection \<open>The TypeScript formatter\<close>

lemma hotel_fields_entries:
  "hotel_fields numToString md score =
     [(''HotelId'', VString (case md_HotelId md of None \<Rightarrow> ''N/A'' | Some v \<Rightarrow> v)),
      (''HotelName'', VString (case md_HotelName md of None \<Rightarrow> ''N/A'' | Some v \<Rightarrow> v)),
      (''Description'', VString (case md_Description md of None \<Rightarrow> '''' | Some v \<Rightarrow> v)),
      (''Category'', VString (case md_Category md of None \<Rightarrow> '''' | Some v \<Rightarrow> v)),
      (''Tags'', VString (case md_Tags md of None \<Rightarrow> '''' | Some ts \<Rightarrow> Join ts '', '')),
      (''ParkingIncluded'', VBool (case md_ParkingIncluded md of None \<Rightarrow> False | Some b \<Rightarrow> b)),
      (''IsDeleted'', VBool (case md_IsDeleted md of None \<Rightarrow> False | Some b \<Rightarrow> b)),
      (''LastRenovationDate'',
         VString (case md_LastRenovationDate md of None \<Rightarrow> '''' | Some v \<Rightarrow> v)),
      (''Rating'', (case md_Rating md of None \<Rightarrow> VString '''' | Some r \<Rightarrow> VNumber r)),
      (''Address.StreetAddress'',
         VString (case md_Address md of None \<Rightarrow> ''''
                  | Some a \<Rightarrow> (case a_StreetAddress a of None \<Rightarrow> '''' | Some v \<Rightarrow> v))),
      (''Address.City'',
         VString (case md_Address md of None \<Rightarrow> ''''
                  | Some a \<Rightarrow> (case a_City a of None \<Rightarrow> '''' | Some v \<Rightarrow> v))),
      (''Address.StateProvince'',
         VString (case md_Address md of None \<Rightarrow> ''''
                  | Some a \<Rightarrow> (case a_StateProvince a of None \<Rightarrow> '''' | Some v \<Rightarrow> v))),
      (''Address.PostalCode'',
         VString (case md_Address md of None \<Rightarrow> ''''
                  | Some a \<Rightarrow> (case a_PostalCode a of None \<Rightarrow> '''' | Some v \<Rightarrow> v))),
      (''Address.Country'',
         VString (case md_Address md of None \<Rightarrow> ''''
                  | Some a \<Rightarrow> (case a_Country a of None \<Rightarrow> '''' | Some v \<Rightarrow> v))),
      (''Score'', VString (toFixed numToString 6 (case score of None \<Rightarrow> 0 | Some s \<Rightarrow> s)))]"
  by (simp add: hotel_fields_def formatAddress_def nullish_def empty_address_def Let_def
      split: option.splits)

lemma hotel_fields_keys:
  "map fst (hotel_fields numToString md score) =
     [''HotelId'', ''HotelName'', ''Description'', ''Category'', ''Tags'', ''ParkingIncluded'',
      ''IsDeleted'', ''LastRenovationDate'', ''Rating'', ''Address.StreetAddress'',
      ''Address.City'', ''Address.StateProvince'', ''Address.PostalCode'', ''Address.Country'',
      ''Score'']"
  by (simp add: hotel_fields_entries)

lemma format_no_metadata_fields:
  "formatHotelForSynthesizer numToString no_metadata_fields None =
     Join [''--- HOTEL START ---'', ''HotelId: N/A'', ''HotelName: N/A'', ''Description: '',
           ''Category: '', ''Tags: '', ''ParkingIncluded: false'', ''IsDeleted: false'',
           ''LastRenovationDate: '', ''Rating: '', ''Address.StreetAddress: '',
           ''Address.City: '', ''Address.StateProvince: '', ''Address.PostalCode: '',
           ''Address.Country: '', ''Score: 0.000000'', ''--- HOTEL END ---''] newline"
  by (simp add: formatHotelForSynthesizer_def hotel_fields_entries no_metadata_fields_def
      toFixed_zero)

text \<open>
  Claim C9. The TypeScript formatter has no failing branch, and for every metadata object
  and score it builds the same fifteen entries in the same order: \<open>N/A\<close> stands in for
  a missing identifier or name; the empty string for a missing description, category,
  tag list, renovation date or rating, and for each address part when the address or the
  part is missing; \<open>false\<close> for a missing boolean flag; and a missing score is printed as
  that of 0, \<open>0.000000\<close>. The block is the start marker, one line per entry, and the end
  marker; for the object without any field it is the text given last.
\<close>

theorem formatHotelForSynthesizer_defaults:
  "hotel_fields numToString md score =
     [(''HotelId'', VString (case md_HotelId md of None \<Rightarrow> ''N/A'' | Some v \<Rightarrow> v)),
      (''HotelName'', VString (case md_HotelName md of None \<Rightarrow> ''N/A'' | Some v \<Rightarrow> v)),
      (''Description'', VString (case md_Description md of None \<Rightarrow> '''' | Some v \<Rightarrow> v)),
      (''Category'', VString (case md_Category md of None \<Rightarrow> '''' | Some v \<Rightarrow> v)),
      (''Tags'', VString (case md_Tags md of None \<Rightarrow> '''' | Some ts \<Rightarrow> Join ts '', '')),
      (''ParkingIncluded'', VBool (case md_ParkingIncluded md of None \<Rightarrow> False | Some b \<Rightarrow> b)),
      (''IsDeleted'', VBool (case md_IsDeleted md of None \<Rightarrow> False | Some b \<Rightarrow> b)),
      (''LastRenovationDate'',
         VString (case md_LastRenovationDate md of None \<Rightarrow> '''' | Some v \<Rightarrow> v)),
      (''Rating'', (case md_Rating md of None \<Rightarrow> VString '''' | Some r \<Rightarrow> VNumber r)),
      (''Address.StreetAddress'',
         VString (case md_Address md of None \<Rightarrow> ''''
                  | Some a \<Rightarrow> (case a_StreetAddress a of None \<Rightarrow> '''' | Some v \<Rightarrow> v))),
      (''Address.City'',
         VString (case md_Address md of None \<Rightarrow> ''''
                  | Some a \<Rightarrow> (case a_City a of None \<Rightarrow> '''' | Some v \<Rightarrow> v))),
      (''Address.StateProvince'',
         VString (case md_Address md of None \<Rightarrow> ''''
                  | Some a \<Rightarrow> (case a_StateProvince a of None \<Rightarrow> '''' | Some v \<Rightarrow> v))),
      (''Address.PostalCode'',
         VString (case md_Address md of None \<Rightarrow> ''''
                  | Some a \<Rightarrow> (case a_PostalCode a of None \<Rightarrow> '''' | Some v \<Rightarrow> v))),
      (''Address.Country'',
         VString (case md_Address md of None \<Rightarrow> ''''
                  | Some a \<Rightarrow> (case a_Country a of None \<Rightarrow> '''' | Some v \<Rightarrow> v))),
      (''Score'', VString (toFixed numToString 6 (case score of None \<Rightarrow> 0 | Some s \<Rightarrow> s)))] \<and>
   toFixed numToString 6 0 = ''0.000000'' \<and>
   formatHotelForSynthesizer numToString md score =
     Join ([''--- HOTEL START ---''] @
           map (\<lambda>(key, value). key @ '': '' @ template_string numToString value)
               (hotel_fields numToString md score) @
           [''--- HOTEL END ---'']) newline \<and>
   length (hotel_fields numToString md score) = 15 \<and>
   formatHotelForSynthesizer numToString no_metadata_fields None =
     Join [''--- HOTEL START ---'', ''HotelId: N/A'', ''HotelName: N/A'', ''Description: '',
           ''Category: '', ''Tags: '', ''ParkingIncluded: false'', ''IsDeleted: false'',
           ''LastRenovationDate: '', ''Rating: '', ''Address.StreetAddress: '',
           ''Address.City: '', ''Address.StateProvince: '', ''Address.PostalCode: '',
           ''Address.Country: '', ''Score: 0.000000'', ''--- HOTEL END ---''] newline"
proof -
  have "length (hotel_fields numToString md score) = 15"
    by (simp add: hotel_fields_entries)
  then show ?thesis
    using hotel_fields_entries [of numToString md score] toFixed_zero [of numToString]
      format_no_metadata_fields [of numToString]
    by (simp only: formatHotelForSynthesizer_def simp_thms)
qed

subsection \<open>The text of a search result\<close>

lemma FormatHotelForSynthesizer_lines:
  "FormatHotelForSynthesizer fmtDate result =
     Join [''--- HOTEL START ---'',
           ''HotelId: '' @ HotelID (Hotel result),
           ''HotelName: '' @ HotelName (Hotel result),
           ''Description: '' @ Description (Hotel result),
           ''Category: '' @ Category (Hotel result),
           ''Tags: '' @ Join (Tags (Hotel result)) '', '',
           ''ParkingIncluded: '' @ (if ParkingIncluded (Hotel result) then ''true'' else ''false''),
           ''IsDeleted: '' @ (if IsDeleted (Hotel result) then ''true'' else ''false''),
           ''LastRenovationDate: '' @ fmtDate (LastRenovationDate (Hotel result)),
           ''Rating: '' @ fmt_f 1 (Rating (Hotel result)),
           ''Address.StreetAddress: '' @ StreetAddress (Address (Hotel result)),
           ''Address.City: '' @ City (Address (Hotel result)),
           ''Address.StateProvince: '' @ StateProvince (Address (Hotel result)),
           ''Address.PostalCode: '' @ PostalCode (Address (Hotel result)),
           ''Address.Country: '' @ Country (Address (Hotel result)),
           ''Score: '' @ fmt_f 6 (Score result),
           ''--- HOTEL END ---''] newline"
  by (simp add: FormatHotelForSynthesizer_def Let_def fmt_t_def newline_def)

lemma format_results_all_present:
  "format_results numToString (map (\<lambda>(md, s). (Some md, s)) rows) =
     Inr (map (\<lambda>(md, s). formatHotelForSynthesizer numToString md s) rows)"
  by (induction rows) (auto split: prod.splits)

lemma search_tool_ok:
  "embedQuery c query = Inr v \<Longrightarrow>
   similaritySearchVectorWithScore c v n = Inr (map (\<lambda>(md, s). (Some md, s)) rows) \<Longrightarrow>
   getHotelsToMatchSearchQuery numToString (Some c) query n =
     Join (map (\<lambda>(md, s). formatHotelForSynthesizer numToString md s) rows) (newline @ newline)"
  by (simp add: getHotelsToMatchSearchQuery_def search_tool_try_def format_results_all_present)

lemma floor_rat_numeral_divide:
  "\<lfloor>(numeral a :: rat) / numeral b\<rfloor> = numeral a div numeral b"
  using floor_divide_of_int_eq [of "numeral a" "numeral b", where ?'a = rat] by simp

lemma round_half_even_numeral: "round_half_even (numeral w) = numeral w"
  by (simp add: round_half_even_def Let_def)

lemma show_nat_samples:
  "show_nat 0 = ''0''" "show_nat 3 = ''3''" "show_nat 4 = ''4''" "show_nat 6 = ''6''"
  "show_nat 100000 = ''100000''" "show_nat 900000 = ''900000''" "show_nat 875000 = ''875000''"
  by (simp_all add: show_nat.simps digit_char_def)

lemma fmt_f_samples:
  "fmt_f 1 (18 / 5) = ''3.6''" "fmt_f 6 (9 / 10) = ''0.900000''"
  "fmt_f 1 4 = ''4.0''" "fmt_f 6 (1 / 10) = ''0.100000''"
  by (simp_all add: fmt_f_def round_half_even_numeral show_nat_samples pad_zeros_def Let_def)

lemma fmt_f_samples_Suc:
  "fmt_f (Suc 0) (18 / 5) = ''3.6''" "fmt_f (Suc 0) 4 = ''4.0''"
  using fmt_f_samples by simp_all

lemma toFixed_sample: "toFixed numToString 6 (7 / 8) = ''0.875000''"
  by (simp add: toFixed_def Let_def show_nat_samples floor_rat_numeral_divide)

lemma sample_GenerateEmbedding:
  "GenerateEmbedding (sample_env stored resp) query = Inr [1 / 2, 1 / 4]"
  by (simp add: GenerateEmbedding_def sample_env_def)

lemma sample_VectorSearch_one:
  "VectorSearch (Aggregate (sample_env best_first_docs resp)) field v 1 =
     Inr [\<lparr>Hotel = hotel_a, Score = 9 / 10\<rparr>]"
  by (simp add: VectorSearch_def sample_env_def best_first_docs_def)

lemma sample_block_a:
  "FormatHotelForSynthesizer (time_Format (sample_env stored resp)) \<lparr>Hotel = hotel_a, Score = 9 / 10\<rparr> =
     hotel_a_block"
  by (simp add: FormatHotelForSynthesizer_lines hotel_a_def hotel_a_block_def sample_env_def
      fmt_f_samples fmt_f_samples_Suc)

lemma sample_block_b:
  "FormatHotelForSynthesizer (time_Format (sample_env stored resp)) \<lparr>Hotel = hotel_b, Score = 1 / 10\<rparr> =
     hotel_b_block"
  by (simp add: FormatHotelForSynthesizer_lines hotel_b_def hotel_b_block_def sample_env_def
      fmt_f_samples fmt_f_samples_Suc)

lemma sample_name_only_block:
  "formatHotelForSynthesizer numToString
     (no_metadata_fields\<lparr>md_HotelName := Some ''Old Century Hotel''\<rparr>) (Some (7 / 8)) =
     name_only_block"
  by (simp add: formatHotelForSynthesizer_def hotel_fields_entries no_metadata_fields_def
      toFixed_sample name_only_block_def)

lemma sample_no_fields_block:
  "formatHotelForSynthesizer numToString no_metadata_fields None = no_fields_block"
  by (simp add: format_no_metadata_fields no_fields_block_def)

lemma sample_context_embed:
  "embedQuery sample_context query = Inr [1 / 2, 1 / 4]"
  by (simp add: sample_context_def)

lemma sample_context_search:
  "similaritySearchVectorWithScore sample_context v 2 =
     Inr (map (\<lambda>(md, s). (Some md, s))
            [(no_metadata_fields, None),
             (no_metadata_fields\<lparr>md_HotelName := Some ''Old Century Hotel''\<rparr>, Some (7 / 8))])"
  by (simp add: sample_context_def)

text \<open>
  Claim C4, as stated, fails on the markers: a block starts with \<open>--- HOTEL START ---\<close>
  and ends with \<open>--- HOTEL END ---\<close>; the texts \<open>--- RECORD START ---\<close> and
  \<open>--- RECORD END ---\<close> occur nowhere in the output. In TypeScript, moreover, a score
  of \<open>10^21\<close> is printed by the ordinary number conversion (JavaScript gives \<open>1e+21\<close>),
  not with six decimals.
\<close>

theorem search_tool_output_format_counterexample:
  "Execute (sample_env best_first_docs None) ''hotel with a pool'' 1 = Inr hotel_a_block \<and>
   prefix ''--- HOTEL START ---'' hotel_a_block \<and>
   suffix ''--- HOTEL END ---'' hotel_a_block \<and>
   \<not> sublist ''--- RECORD START ---'' hotel_a_block \<and>
   \<not> sublist ''--- RECORD END ---'' hotel_a_block \<and>
   toFixed (\<lambda>x. ''1e+21'') 6 (10 ^ 21) = ''1e+21'' \<and>
   \<not> six_decimals ''1e+21''"
proof -
  have f: "toFixed (\<lambda>x. ''1e+21'') 6 (10 ^ 21) = ''1e+21''"
    by (simp add: toFixed_def)
  have g: "\<not> six_decimals ''1e+21''"
    by (simp add: six_decimals_def is_digit_def)
  have a: "Execute (sample_env best_first_docs None) ''hotel with a pool'' 1 = Inr hotel_a_block"
    using Execute_ok [OF sample_GenerateEmbedding sample_VectorSearch_one]
    by (simp add: sample_block_a)
  have b: "prefix ''--- HOTEL START ---'' hotel_a_block"
    by (simp add: hotel_a_block_def)
  have c: "suffix ''--- HOTEL END ---'' hotel_a_block"
    by (simp add: hotel_a_block_def suffix_def)
  have d: "\<not> sublist ''--- RECORD START ---'' hotel_a_block"
    by (simp add: hotel_a_block_def newline_def sublist_Cons_right)
  have e: "\<not> sublist ''--- RECORD END ---'' hotel_a_block"
    by (simp add: hotel_a_block_def newline_def sublist_Cons_right)
  from a b c d e f g show ?thesis by blast
qed

text \<open>
  Claim C4, amended. When the embedding request and the vector search succeed, the output
  of the search tool is one block per result, in the order of the results, joined by a
  blank line. In Go a block is the line \<open>--- HOTEL START ---\<close>, then the lines for
  identifier, name, description, category, tags joined by a comma and a space, the two
  flags as \<open>true\<close> or \<open>false\<close>, renovation date, rating with one decimal, the five
  address parts and the score with exactly six decimals, then the line
  \<open>--- HOTEL END ---\<close>. In TypeScript a block has the same markers around the fifteen
  entries of the same names, the last of which is the score, printed with exactly six
  decimals when its magnitude is below \<open>10^21\<close>.
\<close>

theorem search_tool_output_format:
  "(GenerateEmbedding env query = Inr v \<and>
    VectorSearch (Aggregate env) (EmbeddedField env) v k = Inr results \<longrightarrow>
      Execute env query k =
        Inr (Join (map (FormatHotelForSynthesizer (time_Format env)) results) (newline @ newline))) \<and>
   FormatHotelForSynthesizer fmtDate result =
     Join [''--- HOTEL START ---'',
           ''HotelId: '' @ HotelID (Hotel result),
           ''HotelName: '' @ HotelName (Hotel result),
           ''Description: '' @ Description (Hotel result),
           ''Category: '' @ Category (Hotel result),
           ''Tags: '' @ Join (Tags (Hotel result)) '', '',
           ''ParkingIncluded: '' @ (if ParkingIncluded (Hotel result) then ''true'' else ''false''),
           ''IsDeleted: '' @ (if IsDeleted (Hotel result) then ''true'' else ''false''),
           ''LastRenovationDate: '' @ fmtDate (LastRenovationDate (Hotel result)),
           ''Rating: '' @ fmt_f 1 (Rating (Hotel result)),
           ''Address.StreetAddress: '' @ StreetAddress (Address (Hotel result)),
           ''Address.City: '' @ City (Address (Hotel result)),
           ''Address.StateProvince: '' @ StateProvince (Address (Hotel result)),
           ''Address.PostalCode: '' @ PostalCode (Address (Hotel result)),
           ''Address.Country: '' @ Country (Address (Hotel result)),
           ''Score: '' @ fmt_f 6 (Score result),
           ''--- HOTEL END ---''] newline \<and>
   six_decimals (fmt_f 6 (Score result)) \<and>
   (embedQuery c query = Inr v \<and>
    similaritySearchVectorWithScore c v n = Inr (map (\<lambda>(md, s). (Some md, s)) rows) \<longrightarrow>
      getHotelsToMatchSearchQuery numToString (Some c) query n =
        Join (map (\<lambda>(md, s). formatHotelForSynthesizer numToString md s) rows) (newline @ newline)) \<and>
   formatHotelForSynthesizer numToString md score =
     Join ([''--- HOTEL START ---''] @
           map (\<lambda>(key, value). key @ '': '' @ template_string numToString value)
               (hotel_fields numToString md score) @
           [''--- HOTEL END ---'']) newline \<and>
   map fst (hotel_fields numToString md score) =
     [''HotelId'', ''HotelName'', ''Description'', ''Category'', ''Tags'', ''ParkingIncluded'',
      ''IsDeleted'', ''LastRenovationDate'', ''Rating'', ''Address.StreetAddress'',
      ''Address.City'', ''Address.StateProvince'', ''Address.PostalCode'', ''Address.Country'',
      ''Score''] \<and>
   last (hotel_fields numToString md score) =
     (''Score'', VString (toFixed numToString 6 (case score of None \<Rightarrow> 0 | Some s \<Rightarrow> s))) \<and>
   (\<bar>case score of None \<Rightarrow> 0 | Some s \<Rightarrow> s\<bar> < 10 ^ 21 \<longrightarrow>
      six_decimals (toFixed numToString 6 (case score of None \<Rightarrow> 0 | Some s \<Rightarrow> s)))"
proof -
  have go: "Execute env query k =
        Inr (Join (map (FormatHotelForSynthesizer (time_Format env)) results) (newline @ newline))"
    if "GenerateEmbedding env query = Inr v"
       "VectorSearch (Aggregate env) (EmbeddedField env) v k = Inr results"
    using Execute_ok [OF that] by (simp add: newline_def)
  have ts: "getHotelsToMatchSearchQuery numToString (Some c) query n =
        Join (map (\<lambda>(md, s). formatHotelForSynthesizer numToString md s) rows) (newline @ newline)"
    if "embedQuery c query = Inr v"
       "similaritySearchVectorWithScore c v n = Inr (map (\<lambda>(md, s). (Some md, s)) rows)"
    using that by (rule search_tool_ok)
  have lst: "last (hotel_fields numToString md score) =
     (''Score'', VString (toFixed numToString 6 (case score of None \<Rightarrow> 0 | Some s \<Rightarrow> s)))"
    by (simp add: hotel_fields_entries)
  have six: "six_decimals (toFixed numToString 6 (case score of None \<Rightarrow> 0 | Some s \<Rightarrow> s))"
    if "\<bar>case score of None \<Rightarrow> 0 | Some s \<Rightarrow> s\<bar> < 10 ^ 21"
    using that by (rule toFixed_six_decimals)
  have blk: "formatHotelForSynthesizer numToString md score =
     Join ([''--- HOTEL START ---''] @
           map (\<lambda>(key, value). key @ '': '' @ template_string numToString value)
               (hotel_fields numToString md score) @
           [''--- HOTEL END ---'']) newline"
    by (simp only: formatHotelForSynthesizer_def)
  from go ts lst six blk FormatHotelForSynthesizer_lines [of fmtDate result]
    fmt_f_six_decimals [of "Score result"] hotel_fields_keys [of numToString md score]
  show ?thesis by blast
qed

theorem search_tool_output_format_witness:
  "Execute (sample_env best_first_docs None) ''hotel with a pool'' 2 =
     Inr (Join [hotel_a_block, hotel_b_block] (newline @ newline)) \<and>
   six_decimals ''0.900000'' \<and>
   getHotelsToMatchSearchQuery sample_numToString (Some sample_context) ''hotel with a pool'' 2 =
     Join [no_fields_block, name_only_block] (newline @ newline) \<and>
   six_decimals ''0.875000''"
proof -
  let ?env = "sample_env best_first_docs None"
  let ?ra = "\<lparr>Hotel = hotel_a, Score = 9 / 10\<rparr>"
  let ?rb = "\<lparr>Hotel = hotel_b, Score = 1 / 10\<rparr>"
  let ?named = "no_metadata_fields\<lparr>md_HotelName := Some ''Old Century Hotel''\<rparr>"
  let ?rows = "[(no_metadata_fields, None), (?named, Some (7 / 8))]"
  note inst = search_tool_output_format
    [where env = ?env and query = "''hotel with a pool''" and v = "[1 / 2, 1 / 4]" and k = 2
       and results = "[?ra, ?rb]" and result = ?ra and c = sample_context and n = 2
       and rows = ?rows and numToString = sample_numToString and score = "Some (7 / 8)"]
  have emb: "GenerateEmbedding ?env ''hotel with a pool'' = Inr [1 / 2, 1 / 4]"
    by (rule sample_GenerateEmbedding)
  have vs: "VectorSearch (Aggregate ?env) (EmbeddedField ?env) [1 / 2, 1 / 4] 2 = Inr [?ra, ?rb]"
    by (rule sample_VectorSearch_best_first)
  from inst emb vs have "Execute ?env ''hotel with a pool'' 2 =
      Inr (Join (map (FormatHotelForSynthesizer (time_Format ?env)) [?ra, ?rb]) (newline @ newline))"
    by blast
  then have a: "Execute ?env ''hotel with a pool'' 2 =
      Inr (Join [hotel_a_block, hotel_b_block] (newline @ newline))"
    by (simp only: list.map sample_block_a sample_block_b)
  from inst have "six_decimals (fmt_f 6 (Score ?ra))" by blast
  then have b: "six_decimals ''0.900000''" by (simp add: fmt_f_samples)
  from inst sample_context_embed [of "''hotel with a pool''"] sample_context_search [of "[1 / 2, 1 / 4]"]
  have "getHotelsToMatchSearchQuery sample_numToString (Some sample_context) ''hotel with a pool'' 2 =
      Join (map (\<lambda>(md, s). formatHotelForSynthesizer sample_numToString md s) ?rows) (newline @ newline)"
    by blast
  then have c: "getHotelsToMatchSearchQuery sample_numToString (Some sample_context) ''hotel with a pool'' 2 =
      Join [no_fields_block, name_only_block] (newline @ newline)"
    by (simp only: list.map prod.case sample_no_fields_block sample_name_only_block)
  have small: "\<bar>case Some (7 / 8 :: rat) of None \<Rightarrow> 0 | Some s \<Rightarrow> s\<bar> < 10 ^ 21" by simp
  from inst small
  have "six_decimals (toFixed sample_numToString 6 (case Some (7 / 8) of None \<Rightarrow> 0 | Some s \<Rightarrow> s))"
    by blast
  then have d: "six_decimals ''0.875000''" by (simp add: toFixed_sample)
  from a b c d show ?thesis by blast
qed

end
